theory Spec2Isabelle
  imports Main "HOL-Library.Word" "HOL-Library.Sublist"
begin

unbundle bit_operations_syntax

section \<open>The tracing core of dettrace (src/execution.cpp)\<close>

text \<open>
  The supervisor of \<^verbatim>\<open>execution.cpp\<close> is a single-threaded loop over the stops the
  kernel reports for its tracees. The embedding threads the object's members through
  every member function as a record, returns every \<^verbatim>\<open>throw\<close> as a value, and takes
  everything the file does not define (the kernel, the tracer primitive, the per-syscall
  handlers, the syscall name table) from outside: the kernel as a script of the stops it
  will report, the rest as a record of parameters.
\<close>

subsection \<open>Basic types\<close>

type_synonym pid_t = int
type_synonym status = "32 word"

text \<open>The event tags of \<^verbatim>\<open>enum class ptraceEvent\<close>, as \<^verbatim>\<open>execution.cpp\<close> uses them.\<close>

datatype ptraceEvent =
  syscall | exit | fork | vfork | clone | exec | signal | seccomp | terminatedBySignal

text \<open>
  Every way a member function can fail to return: a \<^verbatim>\<open>runtime_error\<close> with its
  message, the \<^verbatim>\<open>std::out_of_range\<close> of \<^verbatim>\<open>map::at\<close>, whatever a handler hook raises,
  undefined behaviour of C++ (an array read out of bounds, a null \<^verbatim>\<open>unique_ptr\<close>
  dereferenced), and a \<^verbatim>\<open>waitpid\<close> that never returns because the kernel has nothing
  left to report.
\<close>

datatype abort =
  runtime_error string
  | out_of_range
  | handler_raised string
  | undefined_behaviour string
  | blocks_forever

subsection \<open>Wait statuses\<close>

text \<open>The macros of \<^verbatim>\<open><sys/wait.h>\<close> (glibc, \<^verbatim>\<open>bits/waitstatus.h\<close>) on an \<^verbatim>\<open>int\<close> status.\<close>

definition WEXITSTATUS :: "status \<Rightarrow> status" where
  "WEXITSTATUS st = drop_bit 8 (st AND 0xff00)"

definition WTERMSIG :: "status \<Rightarrow> status" where
  "WTERMSIG st = st AND 0x7f"

definition WSTOPSIG :: "status \<Rightarrow> status" where
  "WSTOPSIG st = WEXITSTATUS st"

definition WIFEXITED :: "status \<Rightarrow> bool" where
  "WIFEXITED st = (WTERMSIG st = 0)"

definition WIFSIGNALED :: "status \<Rightarrow> bool" where
  "WIFSIGNALED st = (0 < sint (signed_drop_bit 1 (ucast ((st AND 0x7f) + 1) :: 8 word)))"

definition WIFSTOPPED :: "status \<Rightarrow> bool" where
  "WIFSTOPPED st = (st AND 0xff = 0x7f)"

abbreviation SIGTRAP :: status where "SIGTRAP \<equiv> 5"

text \<open>The event codes of \<^verbatim>\<open><sys/ptrace.h>\<close>.\<close>

abbreviation PTRACE_EVENT_FORK :: nat where "PTRACE_EVENT_FORK \<equiv> 1"
abbreviation PTRACE_EVENT_VFORK :: nat where "PTRACE_EVENT_VFORK \<equiv> 2"
abbreviation PTRACE_EVENT_CLONE :: nat where "PTRACE_EVENT_CLONE \<equiv> 3"
abbreviation PTRACE_EVENT_EXEC :: nat where "PTRACE_EVENT_EXEC \<equiv> 4"
abbreviation PTRACE_EVENT_EXIT :: nat where "PTRACE_EVENT_EXIT \<equiv> 6"
abbreviation PTRACE_EVENT_SECCOMP :: nat where "PTRACE_EVENT_SECCOMP \<equiv> 7"
abbreviation PTRACE_EVENT_STOP :: nat where "PTRACE_EVENT_STOP \<equiv> 128"

subsection \<open>Per-tracee state and syscall handlers\<close>

text \<open>
  A handler object made by \<^verbatim>\<open>getSystemCall\<close>: the class instantiated, and the number
  and name its constructor receives.
\<close>

record systemCall =
  handlerClass :: string
  syscallNumber :: int
  syscallName :: string

text \<open>
  The fields of \<^verbatim>\<open>class state\<close> that \<^verbatim>\<open>execution.cpp\<close> reads and writes
  (\<^verbatim>\<open>state.hpp\<close> is not part of the sources at hand). \<^verbatim>\<open>systemcall\<close> is a
  \<^verbatim>\<open>unique_ptr\<close>: \<open>None\<close> is the null pointer.
\<close>

record state =
  signalToDeliver :: int
  isPreExit :: bool
  systemcall :: "systemCall option"
  logicalTime :: nat

text \<open>
  Modelled from the spec: the constructor \<^verbatim>\<open>state {log, pid}\<close> is declared in
  \<^verbatim>\<open>state.hpp\<close>, which is missing. The spec's data model gives a State the fields
  logicalTime, signalToDeliver (0 for none), isPreExit and currentSyscall; a fresh State
  has no pending signal, no current syscall, is not in a pre-exit stop and starts its
  logical clock at 0.
\<close>

definition freshState :: state where
  "freshState = \<lparr>signalToDeliver = 0, isPreExit = False, systemcall = None, logicalTime = 0\<rparr>"

subsection \<open>The kernel and the tracer primitive\<close>

text \<open>
  One answer of \<^verbatim>\<open>waitpid\<close>: the pid returned (\<open>-1\<close> on failure), the status, the
  text of \<^verbatim>\<open>strerror(errno)\<close> on failure, and what the tracer primitive will read
  from the stopped tracee: its event message (\<^verbatim>\<open>PTRACE_GETEVENTMSG\<close>) and the syscall
  number in its registers (\<^verbatim>\<open>PTRACE_GETREGS\<close>).
\<close>

record kstop =
  k_pid :: pid_t
  k_status :: status
  k_errno :: string
  k_msg :: nat
  k_sysno :: int

datatype ptraceRequest = PTRACE_CONT | PTRACE_SYSCALL

text \<open>
  A resume as \<^verbatim>\<open>getNextEvent\<close> issues it: the request, the tracee resumed, the signal
  injected, and the tracee from whose State the signal was taken.
\<close>

datatype action = Resume ptraceRequest pid_t int pid_t

fun request :: "action \<Rightarrow> ptraceRequest" where "request (Resume r t i f) = r"
fun target :: "action \<Rightarrow> pid_t" where "target (Resume r t i f) = t"
fun injected :: "action \<Rightarrow> int" where "injected (Resume r t i f) = i"
fun takenFrom :: "action \<Rightarrow> pid_t" where "takenFrom (Resume r t i f) = f"

text \<open>
  What the code takes from files that are not part of the sources at hand, as parameters:
  \<^verbatim>\<open>ptracer::isPtraceEvent\<close>, the constant \<^verbatim>\<open>SYSTEM_CALL_COUNT\<close> and the array
  \<^verbatim>\<open>systemCallMappings\<close> of \<^verbatim>\<open>systemCallList.hpp\<close>, whether the build is for a kernel
  older than 4.8 (the \<^verbatim>\<open>#if LINUX_VERSION_CODE < KERNEL_VERSION(4,8,0)\<close> branches),
  whether the headers of the build define \<^verbatim>\<open>PTRACE_EVENT_STOP\<close> (the
  \<^verbatim>\<open>#ifdef PTRACE_EVENT_STOP\<close> test of \<^verbatim>\<open>getNextEvent\<close>), and the two hooks of the handler classes. A hook sees the tracee's State and may change it;
  it returns its message when it throws. What a hook does to the tracee's registers and
  memory through the tracer is outside the model: the hooks neither resume a tracee nor
  wait for one.
\<close>

record platform =
  isPtraceEvent :: "status \<Rightarrow> nat \<Rightarrow> bool"
  SYSTEM_CALL_COUNT :: int
  systemCallMappings :: "string list"
  oldKernel :: bool
  eventStopDefined :: bool
  handleDetPre :: "systemCall \<Rightarrow> state \<Rightarrow> string + bool \<times> state"
  handleDetPost :: "systemCall \<Rightarrow> state \<Rightarrow> string + state"

text \<open>
  Modelled from the spec: \<^verbatim>\<open>ptracer::isPtraceEvent\<close> is defined in \<^verbatim>\<open>ptracer.cpp\<close>,
  which is missing. The spec's \<^verbatim>\<open>isEventStop(status, eventKind)\<close> finds the event in
  the high bits of the status word; this is the test ptrace(2) gives for it,
  \<^verbatim>\<open>status >> 8 == (SIGTRAP | (event << 8))\<close>. It is used for concrete runs only.
\<close>

definition isPtraceEvent_ptrace2 :: "status \<Rightarrow> nat \<Rightarrow> bool" where
  "isPtraceEvent_ptrace2 st event = (signed_drop_bit 8 st = (SIGTRAP OR push_bit 8 (word_of_nat event)))"

text \<open>
  The members of \<^verbatim>\<open>class execution\<close> (\<^verbatim>\<open>states\<close>, \<^verbatim>\<open>processHier\<close> with its top at
  the head, \<^verbatim>\<open>nextPid\<close>, \<^verbatim>\<open>traceesPid\<close>, \<^verbatim>\<open>exitLoop\<close>, \<^verbatim>\<open>debugLevel\<close>), the
  registers the \<^verbatim>\<open>tracer\<close> member holds since its last \<^verbatim>\<open>updateState\<close>, and the
  world outside: the stops the kernel has still to report, the stop it reported last, and
  the resumes it has received so far.
\<close>

record execution =
  states :: "pid_t \<rightharpoonup> state"
  processHier :: "pid_t list"
  nextPid :: pid_t
  traceesPid :: pid_t
  exitLoop :: bool
  debugLevel :: int
  tracerSyscallNumber :: int
  kernel :: "kstop list"
  lastStop :: kstop
  resumes :: "action list"

definition noStop :: kstop where
  "noStop = \<lparr>k_pid = 0, k_status = 0, k_errno = [], k_msg = 0, k_sysno = 0\<rparr>"

text \<open>
  The constructor \<^verbatim>\<open>execution(debugLevel, startingPid)\<close>: one State for the first
  process, which is the first to be resumed. \<^verbatim>\<open>exitLoop\<close> starts false and the stack
  empty (their initialisers are in \<^verbatim>\<open>execution.hpp\<close>).
\<close>

definition newExecution :: "int \<Rightarrow> pid_t \<Rightarrow> kstop list \<Rightarrow> execution" where
  "newExecution dbg startingPid script =
     \<lparr>states = [startingPid \<mapsto> freshState], processHier = [], nextPid = startingPid,
      traceesPid = startingPid, exitLoop = False, debugLevel = dbg,
      tracerSyscallNumber = 0, kernel = script, lastStop = noStop, resumes = []\<rparr>"

text \<open>
  \<^verbatim>\<open>ptracer::doPtrace(PTRACE_CONT | PTRACE_SYSCALL, pid, 0, signal)\<close>: the kernel
  receives the resume. The last argument is not passed to the kernel: it notes, for the
  record of resumes, whose State the signal came from. (A failing ptrace request is
  outside the model.)
\<close>

definition doPtrace ::
  "ptraceRequest \<Rightarrow> pid_t \<Rightarrow> int \<Rightarrow> pid_t \<Rightarrow> execution \<Rightarrow> execution" where
  "doPtrace req pid sig from s = s\<lparr>resumes := resumes s @ [Resume req pid sig from]\<rparr>"

text \<open>
  \<^verbatim>\<open>waitpid(pid, &status, 0)\<close>: the next stop of the script, whatever \<^verbatim>\<open>pid\<close> was
  asked for (the callers compare); with nothing left to report the call does not return.
\<close>

definition waitpid :: "pid_t \<Rightarrow> execution \<Rightarrow> abort + (pid_t \<times> status \<times> execution)" where
  "waitpid pid s =
     (case kernel s of
        [] \<Rightarrow> Inl blocks_forever
      | k # ks \<Rightarrow> Inr (k_pid k, k_status k, s\<lparr>kernel := ks, lastStop := k\<rparr>))"

text \<open>
  Modelled from the spec: the tracer primitive (\<^verbatim>\<open>ptracer.hpp\<close>, \<^verbatim>\<open>ptracer.cpp\<close>) is
  missing. The spec's interface has \<^verbatim>\<open>readRegisters(tid)\<close>, \<^verbatim>\<open>getSyscallNumber()\<close> and
  \<^verbatim>\<open>getEventMessage(tid)\<close>; the code calls them for the tracee whose stop it has just
  observed, so they answer from the stop reported last.
  \<^verbatim>\<open>tracer.updateState(pid)\<close> loads the registers of that tracee, from which
  \<^verbatim>\<open>tracer.getSystemCallNumber()\<close> reads.
\<close>

definition updateState :: "execution \<Rightarrow> execution" where
  "updateState s = s\<lparr>tracerSyscallNumber := k_sysno (lastStop s)\<rparr>"

text \<open>\<^verbatim>\<open>tracer.getEventMessage()\<close>, converted to \<^verbatim>\<open>pid_t\<close> by the caller.\<close>

definition getEventMessage :: "execution \<Rightarrow> pid_t" where
  "getEventMessage s = sint (word_of_nat (k_msg (lastStop s)) :: 32 word)"

subsection \<open>getNextEvent\<close>

text \<open>
  The classification that ends \<^verbatim>\<open>getNextEvent\<close>, from \<^verbatim>\<open>WIFEXITED\<close> on. The test
  for \<^verbatim>\<open>PTRACE_EVENT_STOP\<close> stands under \<^verbatim>\<open>#ifdef PTRACE_EVENT_STOP\<close>: it is compiled
  only where the headers define that name.
\<close>

definition classifyStatus :: "platform \<Rightarrow> status \<Rightarrow> abort + ptraceEvent" where
  "classifyStatus P st =
     (if WIFEXITED st then Inr exit
      else if isPtraceEvent P st PTRACE_EVENT_EXEC then Inr exec
      else if isPtraceEvent P st PTRACE_EVENT_CLONE then Inr clone
      else if isPtraceEvent P st PTRACE_EVENT_VFORK then Inr vfork
      else if isPtraceEvent P st PTRACE_EVENT_FORK then Inr fork
      else if eventStopDefined P \<and> isPtraceEvent P st PTRACE_EVENT_STOP
      then Inl (runtime_error ''Ptrace event stop.\<newline>'')
      else if isPtraceEvent P st PTRACE_EVENT_EXIT then Inl (runtime_error ''Ptrace event exit.\<newline>'')
      else if isPtraceEvent P st PTRACE_EVENT_SECCOMP then Inr seccomp
      else if WIFSTOPPED st \<and> WSTOPSIG st = (SIGTRAP OR 0x80) then Inr syscall
      else if WIFSTOPPED st then Inr signal
      else if WIFSIGNALED st then Inr terminatedBySignal
      else Inl (runtime_error ''Uknown event on dettrace::getNextEvent()''))"

text \<open>
  \<^verbatim>\<open>getNextEvent(currentPid, traceesPid, status, ptraceSystemcall)\<close>. The pending
  signal is read from, and cleared in, the State of \<^verbatim>\<open>nextPid\<close>; the resume goes to
  \<^verbatim>\<open>currentPid\<close>. The out-parameters \<^verbatim>\<open>traceesPid\<close> (a member at every call site) and
  \<^verbatim>\<open>status\<close> are returned.
\<close>

definition getNextEvent ::
  "platform \<Rightarrow> pid_t \<Rightarrow> bool \<Rightarrow> execution \<Rightarrow> abort + (ptraceEvent \<times> status \<times> execution)" where
  "getNextEvent P currentPid ptraceSystemcall s =
     (case states s (nextPid s) of
        None \<Rightarrow> Inl out_of_range
      | Some st \<Rightarrow>
          let sig = signalToDeliver st;
              s1 = s\<lparr>states := (states s)(nextPid s \<mapsto> st\<lparr>signalToDeliver := 0\<rparr>)\<rparr>;
              s2 = doPtrace (if ptraceSystemcall then PTRACE_SYSCALL else PTRACE_CONT)
                     currentPid sig (nextPid s) s1
          in case waitpid (-1) s2 of
               Inl e \<Rightarrow> Inl e
             | Inr (ret, status, s3) \<Rightarrow>
                 let s4 = s3\<lparr>traceesPid := ret\<rparr> in
                 if ret = -1 then Inl (runtime_error (''waitpid failed:'' @ k_errno (lastStop s4)))
                 else (case classifyStatus P status of
                         Inl e \<Rightarrow> Inl e
                       | Inr ev \<Rightarrow> Inr (ev, status, s4)))"

subsection \<open>Strings\<close>

text \<open>\<^verbatim>\<open>std::to_string\<close> on an \<^verbatim>\<open>int\<close>: decimal digits, a minus sign for a negative number.\<close>

fun decimal :: "nat \<Rightarrow> string" where
  "decimal n =
     (if n < 10 then [''0123456789'' ! n]
      else decimal (n div 10) @ [''0123456789'' ! (n mod 10)])"

definition to_string :: "int \<Rightarrow> string" where
  "to_string i = (if i < 0 then CHR ''-'' # decimal (nat (- i)) else decimal (nat i))"

text \<open>
  \<^verbatim>\<open>systemCallMappings[syscallNum]\<close>: a read of a C++ array, undefined outside its
  bounds.
\<close>

definition lookupName :: "string list \<Rightarrow> int \<Rightarrow> abort + string" where
  "lookupName tbl n =
     (if 0 \<le> n \<and> n < int (length tbl) then Inr (tbl ! nat n)
      else Inl (undefined_behaviour ''systemCallMappings read out of bounds''))"

subsection \<open>The syscall dispatcher\<close>

text \<open>
  The \<^verbatim>\<open>switch\<close> of \<^verbatim>\<open>getSystemCall\<close>: each \<^verbatim>\<open>case SYS_x\<close> with the handler class
  it instantiates, in the order of the source. The numbers are those of
  \<^verbatim>\<open><sys/syscall.h>\<close> on x86-64, the only architecture the tracer reads registers of.
  \<^verbatim>\<open>SYS_writev\<close> makes a \<^verbatim>\<open>writeSystemCall\<close>, as in the source.
\<close>

definition dispatchCases :: "(int \<times> string) list" where
  "dispatchCases =
    [(21, ''accessSystemCall''), (37, ''alarmSystemCall''), (80, ''chdirSystemCall''),
     (90, ''chmodSystemCall''), (228, ''clock_gettimeSystemCall''), (56, ''cloneSystemCall''),
     (42, ''connectSystemCall''), (59, ''execveSystemCall''), (5, ''fstatSystemCall''),
     (262, ''newfstatatSystemCall''), (138, ''fstatfsSystemCall''), (202, ''futexSystemCall''),
     (79, ''getcwdSystemCall''), (78, ''getdentsSystemCall''), (318, ''getrandomSystemCall''),
     (97, ''getrlimitSystemCall''), (98, ''getrusageSystemCall''),
     (96, ''gettimeofdaySystemCall''), (16, ''ioctlSystemCall''), (35, ''nanosleepSystemCall''),
     (6, ''lstatSystemCall''), (2, ''openSystemCall''), (257, ''openatSystemCall''),
     (22, ''pipeSystemCall''), (270, ''pselect6SystemCall''), (7, ''pollSystemCall''),
     (302, ''prlimit64SystemCall''), (0, ''readSystemCall''), (89, ''readlinkSystemCall''),
     (44, ''sendtoSystemCall''), (23, ''selectSystemCall''),
     (273, ''set_robust_listSystemCall''), (137, ''statfsSystemCall''), (4, ''statSystemCall''),
     (99, ''sysinfoSystemCall''), (234, ''tgkillSystemCall''), (201, ''timeSystemCall''),
     (63, ''unameSystemCall''), (87, ''unlinkSystemCall''), (263, ''unlinkatSystemCall''),
     (280, ''utimensatSystemCall''), (58, ''vforkSystemCall''), (1, ''writeSystemCall''),
     (20, ''writeSystemCall'')]"

definition getSystemCall :: "int \<Rightarrow> string \<Rightarrow> abort + systemCall" where
  "getSystemCall syscallNumber_arg syscallName_arg =
     (case map_of dispatchCases syscallNumber_arg of
        Some cls \<Rightarrow>
          Inr \<lparr>handlerClass = cls, syscallNumber = syscallNumber_arg,
               syscallName = syscallName_arg\<rparr>
      | None \<Rightarrow>
          Inl (runtime_error (''Missing case for system call: '' @ syscallName_arg
                 @ '' this is a bug!'')))"

subsection \<open>The event handlers\<close>

text \<open>\<^verbatim>\<open>std::map::emplace\<close> inserts only where the key is absent.\<close>

definition emplace :: "(pid_t \<rightharpoonup> state) \<Rightarrow> pid_t \<Rightarrow> state \<Rightarrow> (pid_t \<rightharpoonup> state)" where
  "emplace m k v = (case m k of None \<Rightarrow> m(k \<mapsto> v) | Some _ \<Rightarrow> m)"

text \<open>A write through a reference to the State stored under a key.\<close>

definition withState :: "pid_t \<Rightarrow> (state \<Rightarrow> state) \<Rightarrow> execution \<Rightarrow> execution" where
  "withState p f s =
     (case states s p of None \<Rightarrow> s | Some c \<Rightarrow> s\<lparr>states := (states s)(p \<mapsto> f c)\<rparr>)"

definition handleExit :: "execution \<Rightarrow> execution" where
  "handleExit s =
     (if processHier s = [] then s\<lparr>exitLoop := True\<rparr>
      else s\<lparr>states := (states s)(traceesPid s := None),
             nextPid := hd (processHier s),
             processHier := tl (processHier s)\<rparr>)"

definition handleSignal :: "int \<Rightarrow> execution \<Rightarrow> abort + execution" where
  "handleSignal sigNum s =
     (case states s (traceesPid s) of
        None \<Rightarrow> Inl out_of_range
      | Some c \<Rightarrow> Inr (s\<lparr>states := (states s)(traceesPid s \<mapsto> c\<lparr>signalToDeliver := sigNum\<rparr>)\<rparr>))"

definition handleClone :: "execution \<Rightarrow> execution" where
  "handleClone s = s"

definition handleExecve :: "execution \<Rightarrow> execution" where
  "handleExecve s = s"

text \<open>\<^verbatim>\<open>handleForkEvent\<close> returns the new child's pid with the updated members.\<close>

definition handleForkEvent :: "execution \<Rightarrow> pid_t \<times> execution" where
  "handleForkEvent s =
     (let newChildPid = getEventMessage s;
          parentsPid = traceesPid s
      in (newChildPid,
          s\<lparr>processHier := parentsPid # processHier s,
            states := emplace (states s) newChildPid freshState\<rparr>))"

definition handleForkSignal :: "platform \<Rightarrow> execution \<Rightarrow> abort + execution" where
  "handleForkSignal P s =
     (case waitpid (-1) s of
        Inl e \<Rightarrow> Inl e
      | Inr (ret, status, s1) \<Rightarrow>
          let s2 = s1\<lparr>traceesPid := ret\<rparr> in
          if ret = -1 then Inl (runtime_error (''waitpid failed:'' @ k_errno (lastStop s2)))
          else if \<not> isPtraceEvent P status PTRACE_EVENT_FORK
                  \<and> \<not> isPtraceEvent P status PTRACE_EVENT_VFORK
          then Inl (runtime_error ''Expected fork or vfork event!\<newline>'')
          else Inr s2)"

definition handleFork :: "platform \<Rightarrow> ptraceEvent \<Rightarrow> execution \<Rightarrow> abort + execution" where
  "handleFork P event s =
     (if event = fork \<or> event = vfork then
        (case handleForkEvent s of
           (newChildPid, s1) \<Rightarrow>
             (case waitpid newChildPid s1 of
                Inl e \<Rightarrow> Inl e
              | Inr (retPid, status, s2) \<Rightarrow>
                  if retPid = -1
                  then Inl (runtime_error (''waitpid failed:'' @ k_errno (lastStop s2)))
                  else if retPid \<noteq> newChildPid
                  then Inl (runtime_error
                              ''wait call return pid does not match new child's pid.'')
                  else Inr (s2\<lparr>nextPid := newChildPid\<rparr>)))
      else if event \<noteq> signal then Inl (runtime_error ''Expected signal after fork/vfork event!'')
      else
        (case handleForkSignal P s of
           Inl e \<Rightarrow> Inl e
         | Inr s1 \<Rightarrow>
             (case handleForkEvent s1 of
                (newChildPid, s2) \<Rightarrow> Inr (s2\<lparr>nextPid := newChildPid\<rparr>))))"

subsection \<open>The system call hooks\<close>

text \<open>
  The tail of \<^verbatim>\<open>handlePreSystemCall\<close> for \<^verbatim>\<open>fork\<close>, \<^verbatim>\<open>vfork\<close> and \<^verbatim>\<open>clone\<close>:
  on an old kernel the pre-exit stop is drained first; the next event goes to
  \<^verbatim>\<open>handleFork\<close>. \<open>p\<close> is the key of the State that \<^verbatim>\<open>currState\<close> refers to.
\<close>

definition forkBranch :: "platform \<Rightarrow> pid_t \<Rightarrow> execution \<Rightarrow> abort + (bool \<times> execution)" where
  "forkBranch P p s =
     (case (if oldKernel P
            then (case getNextEvent P (traceesPid s) True s of
                    Inl e \<Rightarrow> Inl e
                  | Inr (e, status, s1) \<Rightarrow> Inr (withState p (\<lambda>c. c\<lparr>isPreExit := False\<rparr>) s1))
            else Inr s) of
        Inl e \<Rightarrow> Inl e
      | Inr s2 \<Rightarrow>
          (case getNextEvent P (traceesPid s2) False s2 of
             Inl e \<Rightarrow> Inl e
           | Inr (e, status, s3) \<Rightarrow>
               (case handleFork P e s3 of
                  Inl e \<Rightarrow> Inl e
                | Inr s4 \<Rightarrow> Inr (False, s4))))"

text \<open>
  \<^verbatim>\<open>handlePreSystemCall\<close> from the line after its range check to its end: the pre-hook
  of the handler, the pre-exit flag of an old kernel, the fork branch, the return value.
\<close>

definition afterRangeCheck ::
  "platform \<Rightarrow> pid_t \<Rightarrow> execution \<Rightarrow> systemCall \<Rightarrow> state \<Rightarrow> abort + (bool \<times> execution)" where
  "afterRangeCheck P p s sc currState =
     (let systemCall = syscallName sc in
      case handleDetPre P sc currState of
        Inl m \<Rightarrow> Inl (handler_raised m)
      | Inr (callPostHook, c1) \<Rightarrow>
          let c2 = (if oldKernel P then c1\<lparr>isPreExit := True\<rparr> else c1);
              s1 = s\<lparr>states := (states s)(p \<mapsto> c2)\<rparr>
          in if systemCall = ''fork'' \<or> systemCall = ''vfork'' \<or> systemCall = ''clone''
             then forkBranch P p s1
             else Inr (if oldKernel P then True
                       else (if debugLevel s1 \<ge> 4 then True else callPostHook), s1))"

text \<open>
  \<^verbatim>\<open>handlePreSystemCall(currState)\<close>, with \<^verbatim>\<open>currState\<close> the State stored under
  \<open>p\<close>: the caller's \<^verbatim>\<open>states.at(traceesPid)\<close> is evaluated on entry. The statements
  follow the source line by line: the number is read, the name table is indexed and the
  dispatcher called with it, then the range is checked.
\<close>

definition handlePreSystemCall ::
  "platform \<Rightarrow> pid_t \<Rightarrow> execution \<Rightarrow> abort + (bool \<times> execution)" where
  "handlePreSystemCall P p s =
     (case states s p of
        None \<Rightarrow> Inl out_of_range
      | Some c0 \<Rightarrow>
          let syscallNum = tracerSyscallNumber s in
          (case lookupName (systemCallMappings P) syscallNum of
             Inl e \<Rightarrow> Inl e
           | Inr name \<Rightarrow>
               (case getSystemCall syscallNum name of
                  Inl e \<Rightarrow> Inl e
                | Inr sc \<Rightarrow>
                    let currState = c0\<lparr>systemcall := Some sc\<rparr> in
                    if syscallNum < 0 \<or> syscallNum > SYSTEM_CALL_COUNT P
                    then Inl (runtime_error
                                (''Unkown system call number: '' @ to_string syscallNum))
                    else afterRangeCheck P p s sc currState)))"

definition handlePostSystemCall :: "platform \<Rightarrow> pid_t \<Rightarrow> execution \<Rightarrow> abort + execution" where
  "handlePostSystemCall P p s =
     (case states s p of
        None \<Rightarrow> Inl out_of_range
      | Some currState \<Rightarrow>
          (case systemcall currState of
             None \<Rightarrow> Inl (undefined_behaviour ''null systemcall dereferenced'')
           | Some sc \<Rightarrow>
               (case handleDetPost P sc currState of
                  Inl m \<Rightarrow> Inl (handler_raised m)
                | Inr c1 \<Rightarrow> Inr (s\<lparr>states := (states s)(p \<mapsto> c1)\<rparr>))))"

text \<open>
  \<^verbatim>\<open>handleSeccomp\<close>: the event message of the tracee that has just stopped, as a
  \<^verbatim>\<open>uint16_t\<close>; \<^verbatim>\<open>INT16_MAX\<close> means the filter had no rule.
\<close>

definition handleSeccomp :: "platform \<Rightarrow> execution \<Rightarrow> abort + (bool \<times> execution)" where
  "handleSeccomp P s =
     (let syscallNum = int (k_msg (lastStop s) mod 65536) in
      if syscallNum = 32767 then
        (let s1 = updateState s;
             syscallNum1 = tracerSyscallNumber s1 mod 65536
         in case lookupName (systemCallMappings P) syscallNum1 of
              Inl e \<Rightarrow> Inl e
            | Inr name \<Rightarrow> Inl (runtime_error (''No filter rule for system call: '' @ name)))
      else handlePreSystemCall P (traceesPid s) (updateState s))"

subsection \<open>The supervisor loop\<close>

text \<open>
  One iteration of the \<^verbatim>\<open>while\<close> loop of \<^verbatim>\<open>runProgram\<close>, from \<^verbatim>\<open>callPostHook\<close> and
  the members to their values at the \<^verbatim>\<open>continue\<close>.
\<close>

definition loopBody :: "platform \<Rightarrow> bool \<Rightarrow> execution \<Rightarrow> abort + (bool \<times> execution)" where
  "loopBody P callPostHook s =
     (case getNextEvent P (nextPid s) callPostHook s of
        Inl e \<Rightarrow> Inl e
      | Inr (ret, status, s1) \<Rightarrow>
          let s2 = s1\<lparr>nextPid := traceesPid s1\<rparr>;
              postHook = (case handlePostSystemCall P (traceesPid s2) (updateState s2) of
                            Inl e \<Rightarrow> Inl e
                          | Inr s3 \<Rightarrow> Inr (False, s3))
          in
          if ret = seccomp then handleSeccomp P s2
          else if ret = syscall then
            (if oldKernel P then
               (case states s2 (traceesPid s2) of
                  None \<Rightarrow> Inl out_of_range
                | Some currentState \<Rightarrow>
                    if isPreExit currentState
                    then Inr (True, s2\<lparr>states := (states s2)
                                (traceesPid s2 \<mapsto> currentState\<lparr>isPreExit := False\<rparr>)\<rparr>)
                    else postHook)
             else postHook)
          else if ret = terminatedBySignal then Inr (callPostHook, handleExit s2)
          else if ret = exit then Inr (callPostHook, handleExit s2)
          else if ret = fork \<or> ret = vfork then Inr (callPostHook, s2)
          else if ret = clone then Inr (callPostHook, handleClone s2)
          else if ret = exec then Inr (callPostHook, handleExecve s2)
          else if ret = signal then
            (case handleSignal (sint (WSTOPSIG status)) s2 of
               Inl e \<Rightarrow> Inl e
             | Inr s3 \<Rightarrow> Inr (callPostHook, s3))
          else Inl (runtime_error (to_string (traceesPid s2)
                      @ '' Uknown return value for ptracer::getNextEvent()\<newline>'')))"

text \<open>
  Every \<^verbatim>\<open>waitpid\<close> that returns takes one stop from the kernel's script, and every
  iteration of the loop starts with one: the loop ends on every script.
\<close>

lemma getNextEvent_kernel:
  "getNextEvent P cur m s = Inr (ev, st, s') \<Longrightarrow> length (kernel s') < length (kernel s)"
  by (auto simp: getNextEvent_def doPtrace_def Let_def waitpid_def
      split: option.splits sum.splits list.splits if_splits)

lemma handleForkSignal_kernel:
  "handleForkSignal P s = Inr s' \<Longrightarrow> length (kernel s') \<le> length (kernel s)"
  by (auto simp: handleForkSignal_def Let_def waitpid_def
      split: sum.splits list.splits if_splits)

lemma handleFork_kernel:
  "handleFork P e s = Inr s' \<Longrightarrow> length (kernel s') \<le> length (kernel s)"
  by (auto simp: handleFork_def handleForkEvent_def Let_def waitpid_def
      dest!: handleForkSignal_kernel
      split: sum.splits list.splits if_splits prod.splits)

lemma withState_kernel [simp]: "kernel (withState p f s) = kernel s"
  by (simp add: withState_def split: option.splits)

lemma forkBranch_kernel:
  "forkBranch P p s = Inr (b, s') \<Longrightarrow> length (kernel s') \<le> length (kernel s)"
  by (fastforce simp: forkBranch_def
      dest: getNextEvent_kernel handleFork_kernel
      split: sum.splits if_splits prod.splits)

lemma afterRangeCheck_kernel:
  "afterRangeCheck P p s sc c = Inr (b, s') \<Longrightarrow> length (kernel s') \<le> length (kernel s)"
  by (auto simp: afterRangeCheck_def Let_def
      dest!: forkBranch_kernel
      split: sum.splits if_splits prod.splits)

lemma handlePreSystemCall_kernel:
  "handlePreSystemCall P p s = Inr (b, s') \<Longrightarrow> length (kernel s') \<le> length (kernel s)"
  by (auto simp: handlePreSystemCall_def Let_def
      dest!: afterRangeCheck_kernel
      split: option.splits sum.splits if_splits)

lemma handleSeccomp_kernel:
  "handleSeccomp P s = Inr (b, s') \<Longrightarrow> length (kernel s') \<le> length (kernel s)"
  by (auto simp: handleSeccomp_def Let_def updateState_def
      dest!: handlePreSystemCall_kernel
      split: option.splits sum.splits if_splits prod.splits)

lemma handlePostSystemCall_kernel:
  "handlePostSystemCall P p s = Inr s' \<Longrightarrow> kernel s' = kernel s"
  by (auto simp: handlePostSystemCall_def split: option.splits sum.splits)

lemma handleSignal_kernel:
  "handleSignal n s = Inr s' \<Longrightarrow> kernel s' = kernel s"
  by (auto simp: handleSignal_def split: option.splits)

lemma handleExit_kernel [simp]: "kernel (handleExit s) = kernel s"
  by (simp add: handleExit_def)

lemma loopBody_kernel:
  "loopBody P c s = Inr (b, s') \<Longrightarrow> length (kernel s') < length (kernel s)"
  unfolding loopBody_def Let_def
  by (auto simp: updateState_def handleClone_def handleExecve_def
      dest!: getNextEvent_kernel handleSeccomp_kernel handlePostSystemCall_kernel
             handleSignal_kernel
      split: option.splits sum.splits if_splits prod.splits)

text \<open>
  The \<^verbatim>\<open>while(! exitLoop)\<close> loop of \<^verbatim>\<open>runProgram\<close>, and \<^verbatim>\<open>runProgram\<close> itself,
  which enters it with \<^verbatim>\<open>callPostHook = false\<close>.
\<close>

function runLoop :: "platform \<Rightarrow> bool \<Rightarrow> execution \<Rightarrow> abort + execution" where
  "runLoop P callPostHook s =
     (if exitLoop s then Inr s
      else (case loopBody P callPostHook s of
              Inl e \<Rightarrow> Inl e
            | Inr (b, s') \<Rightarrow> runLoop P b s'))"
  by pat_completeness auto
termination
  by (relation "measure (\<lambda>(P, c, s). length (kernel s))") (auto dest: loopBody_kernel)

definition runProgram :: "platform \<Rightarrow> execution \<Rightarrow> abort + execution" where
  "runProgram P s = runLoop P False s"

declare runLoop.simps [simp del]

subsection \<open>A concrete platform and kernel scripts\<close>

text \<open>
  The concrete runs below use the first 61 names of the x86-64 syscall table, the
  ptrace(2) event test, a kernel of version 4.8 or later, headers that do not define
  \<^verbatim>\<open>PTRACE_EVENT_STOP\<close>, and hooks that only count: the
  pre-hook advances the logical clock and asks for the post-hook.
\<close>

definition exampleNames :: "string list" where
  "exampleNames =
    [''read'', ''write'', ''open'', ''close'', ''stat'', ''fstat'', ''lstat'', ''poll'',
     ''lseek'', ''mmap'', ''mprotect'', ''munmap'', ''brk'', ''rt_sigaction'',
     ''rt_sigprocmask'', ''rt_sigreturn'', ''ioctl'', ''pread64'', ''pwrite64'', ''readv'',
     ''writev'', ''access'', ''pipe'', ''select'', ''sched_yield'', ''mremap'', ''msync'',
     ''mincore'', ''madvise'', ''shmget'', ''shmat'', ''shmctl'', ''dup'', ''dup2'', ''pause'',
     ''nanosleep'', ''getitimer'', ''alarm'', ''setitimer'', ''getpid'', ''sendfile'',
     ''socket'', ''connect'', ''accept'', ''sendto'', ''recvfrom'', ''sendmsg'', ''recvmsg'',
     ''shutdown'', ''bind'', ''listen'', ''getsockname'', ''getpeername'', ''socketpair'',
     ''setsockopt'', ''getsockopt'', ''clone'', ''fork'', ''vfork'', ''execve'', ''exit'']"

definition examplePlatform :: platform where
  "examplePlatform =
     \<lparr>isPtraceEvent = isPtraceEvent_ptrace2, SYSTEM_CALL_COUNT = 61,
      systemCallMappings = exampleNames, oldKernel = False, eventStopDefined = False,
      handleDetPre = (\<lambda>sc c. Inr (True, c\<lparr>logicalTime := Suc (logicalTime c)\<rparr>)),
      handleDetPost = (\<lambda>sc c. Inr c)\<rparr>"

text \<open>A stop of the script: pid, status, event message, syscall number in the registers.\<close>

definition stop :: "pid_t \<Rightarrow> status \<Rightarrow> nat \<Rightarrow> int \<Rightarrow> kstop" where
  "stop p st m n = \<lparr>k_pid = p, k_status = st, k_errno = [], k_msg = m, k_sysno = n\<rparr>"

subsection \<open>The priority order of the classification, as the specification words it\<close>

text \<open>
  The specification lists the tests on a wait status in priority order; the first test
  that holds decides. \<open>firstMatch\<close> reads such a list; \<open>classificationPriority\<close> is
  the list of the specification, with what each test yields.
\<close>

fun firstMatch :: "(('a \<Rightarrow> bool) \<times> 'b) list \<Rightarrow> 'b \<Rightarrow> 'a \<Rightarrow> 'b" where
  "firstMatch [] d x = d"
| "firstMatch ((t, r) # rest) d x = (if t x then r else firstMatch rest d x)"

definition classificationPriority :: "platform \<Rightarrow> ((status \<Rightarrow> bool) \<times> (abort + ptraceEvent)) list" where
  "classificationPriority P =
     [(WIFEXITED, Inr exit),
      (\<lambda>st. isPtraceEvent P st PTRACE_EVENT_EXEC, Inr exec),
      (\<lambda>st. isPtraceEvent P st PTRACE_EVENT_CLONE, Inr clone),
      (\<lambda>st. isPtraceEvent P st PTRACE_EVENT_VFORK, Inr vfork),
      (\<lambda>st. isPtraceEvent P st PTRACE_EVENT_FORK, Inr fork),
      (\<lambda>st. isPtraceEvent P st PTRACE_EVENT_STOP, Inl (runtime_error ''Ptrace event stop.\<newline>'')),
      (\<lambda>st. isPtraceEvent P st PTRACE_EVENT_EXIT, Inl (runtime_error ''Ptrace event exit.\<newline>'')),
      (\<lambda>st. isPtraceEvent P st PTRACE_EVENT_SECCOMP, Inr seccomp),
      (\<lambda>st. WIFSTOPPED st \<and> WSTOPSIG st = (SIGTRAP OR 0x80), Inr syscall),
      (WIFSTOPPED, Inr signal),
      (WIFSIGNALED, Inr terminatedBySignal)]"

text \<open>
  The priority order as compiled: the test for the generic stop is in the list only
  where \<^verbatim>\<open>PTRACE_EVENT_STOP\<close> is defined.
\<close>

definition compiledPriority :: "platform \<Rightarrow> ((status \<Rightarrow> bool) \<times> (abort + ptraceEvent)) list" where
  "compiledPriority P =
     [(WIFEXITED, Inr exit),
      (\<lambda>st. isPtraceEvent P st PTRACE_EVENT_EXEC, Inr exec),
      (\<lambda>st. isPtraceEvent P st PTRACE_EVENT_CLONE, Inr clone),
      (\<lambda>st. isPtraceEvent P st PTRACE_EVENT_VFORK, Inr vfork),
      (\<lambda>st. isPtraceEvent P st PTRACE_EVENT_FORK, Inr fork)]
     @ (if eventStopDefined P
        then [(\<lambda>st. isPtraceEvent P st PTRACE_EVENT_STOP,
               Inl (runtime_error ''Ptrace event stop.\<newline>''))]
        else [])
     @ [(\<lambda>st. isPtraceEvent P st PTRACE_EVENT_EXIT, Inl (runtime_error ''Ptrace event exit.\<newline>'')),
        (\<lambda>st. isPtraceEvent P st PTRACE_EVENT_SECCOMP, Inr seccomp),
        (\<lambda>st. WIFSTOPPED st \<and> WSTOPSIG st = (SIGTRAP OR 0x80), Inr syscall),
        (WIFSTOPPED, Inr signal),
        (WIFSIGNALED, Inr terminatedBySignal)]"

text \<open>
  A supervisor in the middle of a run: the child 101 of tracee 100 is about to report
  its exit, its parent waits on the ancestor stack.
\<close>

definition exitedChild :: execution where
  "exitedChild =
     (newExecution 0 101 [stop 101 0x0000 0 0])
       \<lparr>states := [100 \<mapsto> freshState, 101 \<mapsto> freshState], processHier := [100]\<rparr>"

text \<open>
  A supervisor whose tracer has just read syscall number \<open>n\<close> from the registers of
  tracee 100.
\<close>

definition atSyscall :: "int \<Rightarrow> execution" where
  "atSyscall n = (newExecution 0 100 [])\<lparr>tracerSyscallNumber := n\<rparr>"

text \<open>
  The two orders of the fork race, as \<^verbatim>\<open>handleFork\<close> is entered: tracee 100 has
  reported its fork event for the new child 101, whose stop is still to come; or the
  child's stop has been reported first and the fork event of 100 is still to come. And
  the supervisor as both leave it, up to the stop reported last. The child's exit is the
  next stop the kernel will report.
\<close>

definition afterForkEvent :: execution where
  "afterForkEvent =
     (newExecution 0 100 [stop 101 0x137f 0 0, stop 101 0 0 0])
       \<lparr>lastStop := stop 100 0x1057f 101 56\<rparr>"

definition afterChildStop :: execution where
  "afterChildStop =
     (newExecution 0 100 [stop 100 0x1057f 101 56, stop 101 0 0 0])
       \<lparr>traceesPid := 101, lastStop := stop 101 0x137f 0 0\<rparr>"

definition forked :: "kstop \<Rightarrow> execution" where
  "forked k =
     \<lparr>states = [100 \<mapsto> freshState, 101 \<mapsto> freshState], processHier = [100], nextPid = 101,
      traceesPid = 100, exitLoop = False, debugLevel = 0,
      tracerSyscallNumber = 0, kernel = [stop 101 0 0 0], lastStop = k, resumes = []\<rparr>"

text \<open>
  A resume injects a tracee's own pending signal when it injects none, or when the
  tracee resumed is the one from whose State the signal was taken.
\<close>

definition ownSignal :: "action \<Rightarrow> bool" where
  "ownSignal a = (injected a = 0 \<or> target a = takenFrom a)"

text \<open>
  The child id that the kernel reports in the message of the fork event-stop: of the stop
  reported last when \<^verbatim>\<open>handleFork\<close> is given the fork or vfork event, of the next stop
  when it is given the child's signal-stop.
\<close>

definition forkEventChild :: "ptraceEvent \<Rightarrow> execution \<Rightarrow> pid_t" where
  "forkEventChild e s =
     (if e = signal then sint (word_of_nat (k_msg (hd (kernel s))) :: 32 word)
      else getEventMessage s)"

text \<open>The supervisor after the forked child 101 has reported its exit.\<close>

definition childExited :: execution where
  "childExited =
     \<lparr>states = [100 \<mapsto> freshState], processHier = [], nextPid = 100,
      traceesPid = 101, exitLoop = False, debugLevel = 0,
      tracerSyscallNumber = 0, kernel = [], lastStop = stop 101 0 0 0,
      resumes = [Resume PTRACE_CONT 101 0 101]\<rparr>"

text \<open>
  A whole fork, event first: tracee 100 enters \<^verbatim>\<open>clone\<close> (syscall 56), its fork event
  names the child 101, the child stops with SIGSTOP and then exits. And the supervisor
  after the iteration that handles the seccomp stop of the \<^verbatim>\<open>clone\<close>.
\<close>

definition forkFirstRun :: execution where
  "forkFirstRun =
     newExecution 0 100
       [stop 100 0x7057f 56 56, stop 100 0x1057f 101 56, stop 101 0x137f 0 0, stop 101 0 0 0]"

definition cloned :: execution where
  "cloned =
     \<lparr>states = [100 \<mapsto> \<lparr>signalToDeliver = 0, isPreExit = False,
                           systemcall = Some \<lparr>handlerClass = ''cloneSystemCall'',
                                              syscallNumber = 56, syscallName = ''clone''\<rparr>,
                           logicalTime = 1\<rparr>,
                101 \<mapsto> freshState],
      processHier = [100], nextPid = 101, traceesPid = 100, exitLoop = False, debugLevel = 0,
      tracerSyscallNumber = 56, kernel = [stop 101 0 0 0], lastStop = stop 101 0x137f 0 0,
      resumes = [Resume PTRACE_CONT 100 0 100, Resume PTRACE_CONT 100 0 100]\<rparr>"





text \<open>
  The example platform with a name table that reaches \<^verbatim>\<open>exit_group\<close>, syscall 231.
\<close>

definition exitGroupPlatform :: platform where
  "exitGroupPlatform =
     examplePlatform\<lparr>systemCallMappings := exampleNames @ replicate 170 ''-'' @ [''exit_group''],
       SYSTEM_CALL_COUNT := 232\<rparr>"








section \<open>Claims\<close>

subsection \<open>C1: the priority order of getNextEvent\<close>

lemma firstMatch_least:
  "i < length ps \<Longrightarrow> fst (ps ! i) x \<Longrightarrow> (\<forall>k<i. \<not> fst (ps ! k) x) \<Longrightarrow> firstMatch ps d x = snd (ps ! i)"
proof (induction ps arbitrary: i)
  case Nil
  then show ?case by simp
next
  case (Cons p ps)
  obtain t r where p: "p = (t, r)" by (cases p)
  show ?case
  proof (cases i)
    case 0
    with Cons.prems p show ?thesis by simp
  next
    case (Suc j)
    with Cons.prems have "\<not> fst ((p # ps) ! 0) x" by blast
    then have nt: "\<not> t x" using p by simp
    have "\<forall>k<j. \<not> fst (ps ! k) x"
    proof (intro allI impI)
      fix k assume "k < j"
      then have "Suc k < i" using Suc by simp
      with Cons.prems have "\<not> fst ((p # ps) ! Suc k) x" by blast
      then show "\<not> fst (ps ! k) x" by simp
    qed
    then have "firstMatch ps d x = snd (ps ! j)"
      using Cons.IH[of j] Cons.prems Suc by simp
    with nt p Suc show ?thesis by simp
  qed
qed

lemma classifyStatus_firstMatch:
  "classifyStatus P st =
     firstMatch (compiledPriority P)
       (Inl (runtime_error ''Uknown event on dettrace::getNextEvent()'')) st"
  by (cases "eventStopDefined P") (simp_all add: classifyStatus_def compiledPriority_def)

lemma compiledPriority_with_stop:
  "eventStopDefined P \<Longrightarrow> compiledPriority P = classificationPriority P"
  by (simp add: compiledPriority_def classificationPriority_def)

lemma getNextEvent_eq_classify:
  assumes "states (s::execution) (nextPid s) = Some c" "kernel s = k # ks" "k_pid k \<noteq> -1"
  shows "map_sum id fst (getNextEvent P cur m s) = classifyStatus P (k_status k)"
  using assms
  by (simp add: getNextEvent_def Let_def waitpid_def doPtrace_def split: sum.splits)

lemmas wait_status_defs = WIFEXITED_def WTERMSIG_def WIFSTOPPED_def WSTOPSIG_def
  WEXITSTATUS_def WIFSIGNALED_def isPtraceEvent_ptrace2_def

text \<open>
  C1, as stated: \<^verbatim>\<open>getNextEvent\<close> classifies a wait status in exactly the priority order
  normal exit, exec event, clone event, vfork event, fork event, the fatal generic-stop
  and exit events, seccomp event, syscall-trap stop, other signal-stop, killed-by-signal.
  In a build whose headers do not define \<^verbatim>\<open>PTRACE_EVENT_STOP\<close> the status 0x80057f of a
  generic stop, which the list of the claim makes fatal, is classified as a signal-stop,
  and \<^verbatim>\<open>getNextEvent\<close> returns it as one.
\<close>

theorem getNextEvent_priority_order_counterexample:
  "firstMatch (classificationPriority examplePlatform)
     (Inl (runtime_error ''Uknown event on dettrace::getNextEvent()'')) 0x80057f
     = Inl (runtime_error ''Ptrace event stop.\<newline>'')
   \<and> classifyStatus examplePlatform 0x80057f = Inr signal
   \<and> map_sum id fst (getNextEvent examplePlatform 100 False
        (newExecution 0 100 [stop 100 0x80057f 0 0])) = Inr signal"
proof -
  have a: "firstMatch (classificationPriority examplePlatform)
     (Inl (runtime_error ''Uknown event on dettrace::getNextEvent()'')) 0x80057f
     = Inl (runtime_error ''Ptrace event stop.\<newline>'')"
    by (simp add: classificationPriority_def examplePlatform_def wait_status_defs)
  have b: "classifyStatus examplePlatform 0x80057f = Inr signal"
    by (simp add: classifyStatus_def examplePlatform_def wait_status_defs)
  have c: "map_sum id fst (getNextEvent examplePlatform 100 False
        (newExecution 0 100 [stop 100 0x80057f 0 0])) = classifyStatus examplePlatform 0x80057f"
    using getNextEvent_eq_classify[of "newExecution 0 100 [stop 100 0x80057f 0 0]" freshState
        "stop 100 0x80057f 0 0" "[]" examplePlatform 100 False]
    by (simp add: newExecution_def stop_def)
  from a b c show ?thesis by simp
qed

text \<open>
  C1, amended: \<^verbatim>\<open>getNextEvent\<close> classifies a wait status in the priority order normal
  exit, exec event, clone event, vfork event, fork event, the fatal generic-stop event
  where the build defines \<^verbatim>\<open>PTRACE_EVENT_STOP\<close> and no such test where it does not, the
  fatal exit event, seccomp event, syscall-trap stop, other signal-stop,
  killed-by-signal. The classification is the first match of that list; a status whose
  earliest matching test is the \<open>i\<close>-th is classified by the \<open>i\<close>-th and by no later
  one; what \<^verbatim>\<open>getNextEvent\<close> returns or throws, once \<^verbatim>\<open>waitpid\<close> has reported a
  status, is this classification; and where \<^verbatim>\<open>PTRACE_EVENT_STOP\<close> is defined the list
  is the one of the specification.
\<close>

theorem getNextEvent_priority_order:
  "classifyStatus P st =
     firstMatch (compiledPriority P)
       (Inl (runtime_error ''Uknown event on dettrace::getNextEvent()'')) st
   \<and> (\<forall>i < length (compiledPriority P).
         fst (compiledPriority P ! i) st
         \<and> (\<forall>k<i. \<not> fst (compiledPriority P ! k) st)
         \<longrightarrow> classifyStatus P st = snd (compiledPriority P ! i))
   \<and> (\<forall>(s::execution) c k ks cur m.
         states s (nextPid s) = Some c \<and> kernel s = k # ks \<and> k_pid k \<noteq> -1 \<and> k_status k = st
         \<longrightarrow> map_sum id fst (getNextEvent P cur m s) =
               firstMatch (compiledPriority P)
                 (Inl (runtime_error ''Uknown event on dettrace::getNextEvent()'')) st)
   \<and> (eventStopDefined P \<longrightarrow> compiledPriority P = classificationPriority P)"
proof (intro conjI allI impI)
  show "classifyStatus P st =
     firstMatch (compiledPriority P)
       (Inl (runtime_error ''Uknown event on dettrace::getNextEvent()'')) st"
    by (rule classifyStatus_firstMatch)
next
  fix i
  assume "i < length (compiledPriority P)"
    and "fst (compiledPriority P ! i) st
         \<and> (\<forall>k<i. \<not> fst (compiledPriority P ! k) st)"
  then show "classifyStatus P st = snd (compiledPriority P ! i)"
    by (simp add: classifyStatus_firstMatch firstMatch_least)
next
  fix s :: execution and c k ks cur m
  assume "states s (nextPid s) = Some c \<and> kernel s = k # ks \<and> k_pid k \<noteq> -1 \<and> k_status k = st"
  then show "map_sum id fst (getNextEvent P cur m s) =
               firstMatch (compiledPriority P)
                 (Inl (runtime_error ''Uknown event on dettrace::getNextEvent()'')) st"
    using getNextEvent_eq_classify[of s c k ks P cur m]
    by (simp add: classifyStatus_firstMatch)
next
  assume "eventStopDefined P"
  then show "compiledPriority P = classificationPriority P"
    by (rule compiledPriority_with_stop)
qed

theorem getNextEvent_priority_order_witness:
  "classifyStatus examplePlatform 0x1057f = Inr fork
   \<and> fst (compiledPriority examplePlatform ! 8) 0x1057f
   \<and> map_sum id fst (getNextEvent examplePlatform 100 False
        (newExecution 0 100 [stop 100 0x1057f 101 56])) = Inr fork
   \<and> eventStopDefined (examplePlatform\<lparr>eventStopDefined := True\<rparr>)
   \<and> classifyStatus (examplePlatform\<lparr>eventStopDefined := True\<rparr>) 0x80057f =
       Inl (runtime_error ''Ptrace event stop.\<newline>'')"
proof -
  note T = getNextEvent_priority_order[of examplePlatform "0x1057f"]
  note U = getNextEvent_priority_order[of "examplePlatform\<lparr>eventStopDefined := True\<rparr>"
      "0x80057f"]
  have lt: "\<And>k::nat. k < 4 \<longleftrightarrow> k = 0 \<or> k = 1 \<or> k = 2 \<or> k = 3" by auto
  have a: "classifyStatus examplePlatform 0x1057f = snd (compiledPriority examplePlatform ! 4)"
    using T[THEN conjunct2, THEN conjunct1, rule_format, of 4]
    by (simp add: compiledPriority_def examplePlatform_def lt
        WIFEXITED_def WTERMSIG_def isPtraceEvent_ptrace2_def)
  have b: "fst (compiledPriority examplePlatform ! 8) 0x1057f"
    by (simp add: compiledPriority_def examplePlatform_def WIFSTOPPED_def)
  have c: "map_sum id fst (getNextEvent examplePlatform 100 False
        (newExecution 0 100 [stop 100 0x1057f 101 56])) =
        firstMatch (compiledPriority examplePlatform)
                 (Inl (runtime_error ''Uknown event on dettrace::getNextEvent()'')) 0x1057f"
    using T[THEN conjunct2, THEN conjunct2, THEN conjunct1, rule_format,
        of "newExecution 0 100 [stop 100 0x1057f 101 56]" freshState
           "stop 100 0x1057f 101 56" "[]" 100 False]
    by (simp add: newExecution_def stop_def)
  have d: "eventStopDefined (examplePlatform\<lparr>eventStopDefined := True\<rparr>)" by simp
  from U[THEN conjunct2, THEN conjunct2, THEN conjunct2, rule_format, OF d]
    U[THEN conjunct1]
  have e: "classifyStatus (examplePlatform\<lparr>eventStopDefined := True\<rparr>) 0x80057f =
       Inl (runtime_error ''Ptrace event stop.\<newline>'')"
    by (simp add: classificationPriority_def examplePlatform_def wait_status_defs)
  show ?thesis using a b c d e T
    by (simp add: compiledPriority_def examplePlatform_def)
qed

subsection \<open>Shared facts about getNextEvent\<close>

text \<open>
  What a returning \<^verbatim>\<open>getNextEvent\<close> has done: cleared the pending signal of
  \<^verbatim>\<open>nextPid\<close>, resumed \<^verbatim>\<open>currentPid\<close> with it, and taken one stop from the kernel.
\<close>

lemma getNextEvent_Inr:
  assumes "getNextEvent P cur m s = Inr (ev, st, s')"
  shows "\<exists>c k ks. states s (nextPid s) = Some c \<and> kernel s = k # ks \<and> k_pid k \<noteq> -1
           \<and> st = k_status k \<and> classifyStatus P st = Inr ev
           \<and> s' = s\<lparr>states := (states s)(nextPid s \<mapsto> c\<lparr>signalToDeliver := 0\<rparr>),
                    resumes := resumes s @ [Resume (if m then PTRACE_SYSCALL else PTRACE_CONT)
                                              cur (signalToDeliver c) (nextPid s)],
                    kernel := ks, lastStop := k, traceesPid := k_pid k\<rparr>"
proof -
  from assms obtain c where c: "states s (nextPid s) = Some c"
    by (cases "states s (nextPid s)") (simp_all add: getNextEvent_def)
  from assms c obtain k ks where k: "kernel s = k # ks"
    by (cases "kernel s") (simp_all add: getNextEvent_def Let_def waitpid_def doPtrace_def)
  from assms c k have pid: "k_pid k \<noteq> -1"
    by (auto simp: getNextEvent_def Let_def waitpid_def doPtrace_def split: if_splits)
  from assms c k pid show ?thesis
    by (auto simp: getNextEvent_def Let_def waitpid_def doPtrace_def split: sum.splits)
qed

lemma exit_status_classified:
  "classifyStatus P 0x0700 = Inr exit" "classifyStatus P 0 = Inr exit"
  by (simp_all add: classifyStatus_def WIFEXITED_def WTERMSIG_def)

lemma length_exampleNames: "length exampleNames = 61"
  by (simp add: exampleNames_def)

lemmas status_defs = classifyStatus_def examplePlatform_def isPtraceEvent_ptrace2_def
  WIFEXITED_def WTERMSIG_def WIFSTOPPED_def WSTOPSIG_def WEXITSTATUS_def WIFSIGNALED_def

lemma classify_examples:
  "classifyStatus examplePlatform 0x7057f = Inr seccomp"
  "classifyStatus examplePlatform 0x1057f = Inr fork"
  "classifyStatus examplePlatform 0x137f = Inr signal"
  "classifyStatus examplePlatform 0x0a7f = Inr signal"
  "classifyStatus examplePlatform 0x000a = Inr terminatedBySignal"
  by (simp_all add: status_defs)


lemma getNextEvent_exit_example:
  "getNextEvent examplePlatform 100 False (newExecution 0 100 [stop 100 0x0700 0 0]) =
     Inr (exit, 0x0700,
          (newExecution 0 100 [])\<lparr>resumes := [Resume PTRACE_CONT 100 0 100],
             lastStop := stop 100 0x0700 0 0\<rparr>)"
  by (simp add: getNextEvent_def newExecution_def freshState_def Let_def doPtrace_def
      waitpid_def stop_def exit_status_classified)

lemma getNextEvent_exitedChild:
  "getNextEvent examplePlatform 101 False exitedChild =
     Inr (exit, 0,
          exitedChild\<lparr>resumes := [Resume PTRACE_CONT 101 0 101], kernel := [],
             lastStop := stop 101 0 0 0\<rparr>)"
  by (simp add: getNextEvent_def exitedChild_def newExecution_def freshState_def Let_def
      doPtrace_def waitpid_def stop_def exit_status_classified fun_upd_twist)

subsection \<open>C7: handleExit on a termination event\<close>

text \<open>
  C7. On a tracee's termination event (exited or killed-by-signal): if the ancestor stack
  is empty, \<^verbatim>\<open>handleExit\<close> sets the termination flag and the supervisor loop ends
  there; otherwise the exiting tracee's State is removed from the registry, the top of the
  ancestor stack is popped, and the popped tracee is the resume target with which the loop
  goes on.
\<close>

theorem handleExit_on_termination:
  assumes "getNextEvent P (nextPid s) callPostHook s = Inr (ev, st, s1)"
    and "ev = exit \<or> ev = terminatedBySignal"
    and "\<not> exitLoop s"
  shows "(processHier s1 = [] \<longrightarrow>
            runLoop P callPostHook s = Inr (s1\<lparr>nextPid := traceesPid s1, exitLoop := True\<rparr>))
       \<and> (processHier s1 \<noteq> [] \<longrightarrow>
            loopBody P callPostHook s =
              Inr (callPostHook,
                   s1\<lparr>states := (states s1)(traceesPid s1 := None),
                      nextPid := hd (processHier s1),
                      processHier := tl (processHier s1)\<rparr>)
            \<and> runLoop P callPostHook s =
                runLoop P callPostHook
                  (s1\<lparr>states := (states s1)(traceesPid s1 := None),
                      nextPid := hd (processHier s1),
                      processHier := tl (processHier s1)\<rparr>))"
proof -
  have body: "loopBody P callPostHook s =
      Inr (callPostHook, handleExit (s1\<lparr>nextPid := traceesPid s1\<rparr>))"
    using assms(1,2) by (auto simp: loopBody_def Let_def)
  have loop: "runLoop P callPostHook s =
      runLoop P callPostHook (handleExit (s1\<lparr>nextPid := traceesPid s1\<rparr>))"
    using assms(3) body by (subst runLoop.simps) simp
  show ?thesis
  proof (intro conjI impI)
    assume e: "processHier s1 = []"
    then have "handleExit (s1\<lparr>nextPid := traceesPid s1\<rparr>) =
        s1\<lparr>nextPid := traceesPid s1, exitLoop := True\<rparr>"
      by (simp add: handleExit_def)
    then show "runLoop P callPostHook s = Inr (s1\<lparr>nextPid := traceesPid s1, exitLoop := True\<rparr>)"
      using loop by (simp add: runLoop.simps)
  next
    assume ne: "processHier s1 \<noteq> []"
    then have h: "handleExit (s1\<lparr>nextPid := traceesPid s1\<rparr>) =
        s1\<lparr>states := (states s1)(traceesPid s1 := None),
           nextPid := hd (processHier s1),
           processHier := tl (processHier s1)\<rparr>"
      by (simp add: handleExit_def)
    show "loopBody P callPostHook s =
              Inr (callPostHook,
                   s1\<lparr>states := (states s1)(traceesPid s1 := None),
                      nextPid := hd (processHier s1),
                      processHier := tl (processHier s1)\<rparr>)"
      using body h by simp
    show "runLoop P callPostHook s =
                runLoop P callPostHook
                  (s1\<lparr>states := (states s1)(traceesPid s1 := None),
                      nextPid := hd (processHier s1),
                      processHier := tl (processHier s1)\<rparr>)"
      using loop h by simp
  qed
qed

theorem handleExit_on_termination_witness:
  "runLoop examplePlatform False (newExecution 0 100 [stop 100 0x0700 0 0]) =
     Inr ((newExecution 0 100 [])\<lparr>resumes := [Resume PTRACE_CONT 100 0 100],
             lastStop := stop 100 0x0700 0 0, exitLoop := True\<rparr>)
   \<and> loopBody examplePlatform False exitedChild =
     Inr (False, exitedChild\<lparr>resumes := [Resume PTRACE_CONT 101 0 101], kernel := [],
             lastStop := stop 101 0 0 0, states := [100 \<mapsto> freshState],
             nextPid := 100, processHier := []\<rparr>)"
proof -
  have a: "runLoop examplePlatform False (newExecution 0 100 [stop 100 0x0700 0 0]) =
     Inr ((newExecution 0 100 [])\<lparr>resumes := [Resume PTRACE_CONT 100 0 100],
             lastStop := stop 100 0x0700 0 0, exitLoop := True\<rparr>)"
    using handleExit_on_termination[of examplePlatform "newExecution 0 100 [stop 100 0x0700 0 0]"
        False exit "0x0700", THEN conjunct1] getNextEvent_exit_example
    by (simp add: newExecution_def)
  have b: "loopBody examplePlatform False exitedChild =
     Inr (False, exitedChild\<lparr>resumes := [Resume PTRACE_CONT 101 0 101], kernel := [],
             lastStop := stop 101 0 0 0, states := [100 \<mapsto> freshState],
             nextPid := 100, processHier := []\<rparr>)"
    using handleExit_on_termination[of examplePlatform exitedChild
        False exit 0, THEN conjunct2] getNextEvent_exitedChild
    by (simp add: exitedChild_def newExecution_def fun_upd_twist)
  from a b show ?thesis by simp
qed

subsection \<open>Shared facts about the fork reconciler\<close>

text \<open>What a returning \<^verbatim>\<open>handleForkSignal\<close> and a returning \<^verbatim>\<open>handleFork\<close> have done.\<close>

lemma handleForkSignal_Inr:
  assumes "handleForkSignal P s = Inr s'"
  shows "\<exists>k ks. kernel s = k # ks \<and> k_pid k \<noteq> -1
           \<and> (isPtraceEvent P (k_status k) PTRACE_EVENT_FORK
                \<or> isPtraceEvent P (k_status k) PTRACE_EVENT_VFORK)
           \<and> s' = s\<lparr>kernel := ks, lastStop := k, traceesPid := k_pid k\<rparr>"
  using assms
  by (cases "kernel s")
     (auto simp: handleForkSignal_def waitpid_def Let_def split: if_splits)

lemma handleFork_Inr:
  assumes "handleFork P e s = Inr s'"
  shows "\<exists>k ks. kernel s = k # ks \<and> k_pid k \<noteq> -1 \<and>
     ((e = fork \<or> e = vfork) \<and> k_pid k = getEventMessage s
        \<and> s' = s\<lparr>processHier := traceesPid s # processHier s,
                  states := emplace (states s) (getEventMessage s) freshState,
                  kernel := ks, lastStop := k, nextPid := getEventMessage s\<rparr>
      \<or> e = signal
        \<and> (isPtraceEvent P (k_status k) PTRACE_EVENT_FORK
             \<or> isPtraceEvent P (k_status k) PTRACE_EVENT_VFORK)
        \<and> s' = s\<lparr>kernel := ks, lastStop := k, traceesPid := k_pid k,
                  processHier := k_pid k # processHier s,
                  states := emplace (states s) (sint (word_of_nat (k_msg k) :: 32 word)) freshState,
                  nextPid := sint (word_of_nat (k_msg k) :: 32 word)\<rparr>)"
proof (cases "e = fork \<or> e = vfork")
  case True
  with assms show ?thesis
    by (cases "kernel s")
       (auto simp: handleFork_def handleForkEvent_def waitpid_def Let_def split: if_splits)
next
  case False
  with assms have sig: "e = signal"
    by (auto simp: handleFork_def split: if_splits)
  from assms False sig obtain s1 where s1: "handleForkSignal P s = Inr s1"
    by (cases "handleForkSignal P s") (auto simp: handleFork_def)
  from handleForkSignal_Inr[OF s1] obtain k ks where
    k: "kernel s = k # ks" "k_pid k \<noteq> -1"
       "isPtraceEvent P (k_status k) PTRACE_EVENT_FORK
                \<or> isPtraceEvent P (k_status k) PTRACE_EVENT_VFORK"
       "s1 = s\<lparr>kernel := ks, lastStop := k, traceesPid := k_pid k\<rparr>"
    by blast
  from assms False sig s1 k show ?thesis
    by (auto simp: handleFork_def handleForkEvent_def getEventMessage_def Let_def)
qed

subsection \<open>Only handleExit ends the loop\<close>

lemma getNextEvent_exitLoop:
  "getNextEvent P cur m s = Inr (ev, st, s') \<Longrightarrow> exitLoop s' = exitLoop s"
  by (drule getNextEvent_Inr) auto

lemma handleFork_exitLoop:
  "handleFork P e s = Inr s' \<Longrightarrow> exitLoop s' = exitLoop s"
  by (drule handleFork_Inr) auto

lemma withState_exitLoop [simp]: "exitLoop (withState p f s) = exitLoop s"
  by (simp add: withState_def split: option.splits)

lemma forkBranch_exitLoop:
  "forkBranch P p s = Inr (b, s') \<Longrightarrow> exitLoop s' = exitLoop s"
  by (fastforce simp: forkBranch_def
      dest: getNextEvent_exitLoop handleFork_exitLoop
      split: sum.splits if_splits prod.splits)

lemma afterRangeCheck_exitLoop:
  "afterRangeCheck P p s sc c = Inr (b, s') \<Longrightarrow> exitLoop s' = exitLoop s"
  by (auto simp: afterRangeCheck_def Let_def
      dest!: forkBranch_exitLoop
      split: sum.splits if_splits prod.splits)

lemma handlePreSystemCall_exitLoop:
  "handlePreSystemCall P p s = Inr (b, s') \<Longrightarrow> exitLoop s' = exitLoop s"
  by (auto simp: handlePreSystemCall_def Let_def
      dest!: afterRangeCheck_exitLoop
      split: option.splits sum.splits if_splits)

lemma handleSeccomp_exitLoop:
  "handleSeccomp P s = Inr (b, s') \<Longrightarrow> exitLoop s' = exitLoop s"
  by (auto simp: handleSeccomp_def Let_def updateState_def
      dest!: handlePreSystemCall_exitLoop
      split: option.splits sum.splits if_splits)

lemma handlePostSystemCall_exitLoop:
  "handlePostSystemCall P p s = Inr s' \<Longrightarrow> exitLoop s' = exitLoop s"
  by (auto simp: handlePostSystemCall_def split: option.splits sum.splits)

lemma handleSignal_exitLoop:
  "handleSignal n s = Inr s' \<Longrightarrow> exitLoop s' = exitLoop s"
  by (auto simp: handleSignal_def split: option.splits)

lemma loopBody_ends_loop:
  assumes "loopBody P c s = Inr (b, s')" "\<not> exitLoop s" "exitLoop s'"
  shows "states s' (nextPid s) \<noteq> None"
proof -
  from assms(1) obtain ev st s1 where g: "getNextEvent P (nextPid s) c s = Inr (ev, st, s1)"
    by (cases "getNextEvent P (nextPid s) c s") (auto simp: loopBody_def)
  from getNextEvent_Inr[OF g] obtain c0 where
    reg: "states s1 (nextPid s) = Some (c0\<lparr>signalToDeliver := 0\<rparr>)" and ex: "\<not> exitLoop s1"
    using assms(2) by auto
  let ?s2 = "s1\<lparr>nextPid := traceesPid s1\<rparr>"
  have ex2: "\<not> exitLoop ?s2" using ex by simp
  show ?thesis
  proof (cases "ev = exit \<or> ev = terminatedBySignal")
    case True
    with assms(1) g have s': "s' = handleExit ?s2"
      by (auto simp: loopBody_def Let_def)
    with assms(3) ex2 have "processHier ?s2 = []"
      by (auto simp: handleExit_def split: if_splits)
    with s' have "states s' = states s1" by (simp add: handleExit_def)
    with reg show ?thesis by simp
  next
    case False
    with assms(1) g ex2 have "\<not> exitLoop s'"
      by (cases ev)
         (auto simp: loopBody_def Let_def handleClone_def handleExecve_def updateState_def
           dest!: handleSeccomp_exitLoop handlePostSystemCall_exitLoop handleSignal_exitLoop
           split: if_splits option.splits sum.splits)
    with assms(3) show ?thesis by simp
  qed
qed

lemma runLoop_registry:
  "runLoop P c s = Inr s' \<Longrightarrow> \<not> exitLoop s \<Longrightarrow> exitLoop s' \<and> states s' \<noteq> Map.empty"
proof (induction P c s rule: runLoop.induct)
  case (1 P c s)
  from "1.prems" obtain b s1 where body: "loopBody P c s = Inr (b, s1)"
    and rest: "runLoop P b s1 = Inr s'"
    by (subst (asm) runLoop.simps) (auto split: sum.splits)
  show ?case
  proof (cases "exitLoop s1")
    case True
    with rest have "s' = s1" by (subst (asm) runLoop.simps) simp
    with loopBody_ends_loop[OF body "1.prems"(2)] True show ?thesis by auto
  next
    case False
    from "1.IH"[OF "1.prems"(2) body refl rest False] show ?thesis .
  qed
qed

lemma loopBody_exit_example:
  "loopBody examplePlatform False (newExecution 0 100 [stop 100 0x0700 0 0]) =
     Inr (False, (newExecution 0 100 [])\<lparr>resumes := [Resume PTRACE_CONT 100 0 100],
             lastStop := stop 100 0x0700 0 0, exitLoop := True\<rparr>)"
  by (simp add: loopBody_def getNextEvent_def newExecution_def freshState_def Let_def
      doPtrace_def waitpid_def stop_def exit_status_classified handleExit_def)

lemma runLoop_exit_example:
  "runLoop examplePlatform False (newExecution 0 100 [stop 100 0x0700 0 0]) =
     Inr ((newExecution 0 100 [])\<lparr>resumes := [Resume PTRACE_CONT 100 0 100],
             lastStop := stop 100 0x0700 0 0, exitLoop := True\<rparr>)"
proof -
  have "\<not> exitLoop (newExecution 0 100 [stop 100 0x0700 0 0])"
    by (simp add: newExecution_def)
  then have "runLoop examplePlatform False (newExecution 0 100 [stop 100 0x0700 0 0]) =
      runLoop examplePlatform False ((newExecution 0 100 [])\<lparr>resumes := [Resume PTRACE_CONT 100 0 100],
             lastStop := stop 100 0x0700 0 0, exitLoop := True\<rparr>)"
    by (subst runLoop.simps) (simp add: loopBody_exit_example)
  also have "\<dots> = Inr ((newExecution 0 100 [])\<lparr>resumes := [Resume PTRACE_CONT 100 0 100],
             lastStop := stop 100 0x0700 0 0, exitLoop := True\<rparr>)"
    by (subst runLoop.simps) simp
  finally show ?thesis .
qed

subsection \<open>C2: the registry when the loop has ended\<close>

text \<open>
  C2, as stated: the registry is empty if and only if the supervisor has exited its loop,
  and a single tracee that only exits gives the registry sizes 1 and then 0. The run of a
  single tracee 100 whose exit with code 7 is the only stop reported refutes it:
  \<^verbatim>\<open>runProgram\<close> returns with \<^verbatim>\<open>exitLoop\<close> set and the State of 100 still registered,
  so the sizes are 1 and then 1.
\<close>

theorem registry_empty_iff_exited_counterexample:
  "map_sum id (\<lambda>s'. (exitLoop s', states s' 100, card (dom (states s'))))
     (runProgram examplePlatform (newExecution 0 100 [stop 100 0x0700 0 0]))
   = Inr (True, Some freshState, 1)
   \<and> card (dom (states (newExecution 0 100 [stop 100 0x0700 0 0]))) = 1"
  unfolding runProgram_def runLoop_exit_example
  by (simp add: newExecution_def)

text \<open>
  C2, amended: when \<^verbatim>\<open>runProgram\<close> returns, the termination flag is set and the registry
  is not empty. \<^verbatim>\<open>handleExit\<close> erases a State only when the ancestor stack is not
  empty; when it ends the loop it leaves the registry as it is, and the State of the
  tracee resumed last is still there.
\<close>

theorem registry_not_empty_after_loop:
  "\<not> exitLoop s \<Longrightarrow> runProgram P s = Inr s' \<Longrightarrow> exitLoop s' \<and> states s' \<noteq> Map.empty"
  unfolding runProgram_def by (rule runLoop_registry)

theorem registry_not_empty_after_loop_witness:
  "\<not> exitLoop (newExecution 0 100 [stop 100 0x0700 0 0])
   \<and> runProgram examplePlatform (newExecution 0 100 [stop 100 0x0700 0 0]) =
       Inr ((newExecution 0 100 [])\<lparr>resumes := [Resume PTRACE_CONT 100 0 100],
             lastStop := stop 100 0x0700 0 0, exitLoop := True\<rparr>)
   \<and> states ((newExecution 0 100 [])\<lparr>resumes := [Resume PTRACE_CONT 100 0 100],
             lastStop := stop 100 0x0700 0 0, exitLoop := True\<rparr>) \<noteq> Map.empty"
proof -
  have a: "\<not> exitLoop (newExecution 0 100 [stop 100 0x0700 0 0])"
    by (simp add: newExecution_def)
  have b: "runProgram examplePlatform (newExecution 0 100 [stop 100 0x0700 0 0]) =
       Inr ((newExecution 0 100 [])\<lparr>resumes := [Resume PTRACE_CONT 100 0 100],
             lastStop := stop 100 0x0700 0 0, exitLoop := True\<rparr>)"
    unfolding runProgram_def by (rule runLoop_exit_example)
  from registry_not_empty_after_loop[OF a b] a b show ?thesis by simp
qed

text \<open>
  A seccomp stop for \<^verbatim>\<open>exit_group\<close> itself does not lead to the exit: the dispatcher
  has no case for syscall 231, and the run ends in its failure.
\<close>

lemma dispatch_231: "map_of dispatchCases 231 = None"
  by (simp add: dispatchCases_def)

lemma exit_group_name:
  "lookupName (systemCallMappings exitGroupPlatform) 231 = Inr ''exit_group''"
  by (simp add: lookupName_def exitGroupPlatform_def length_exampleNames nth_append)

lemma exit_group_seccomp_stop_aborts:
  "runProgram exitGroupPlatform
     (newExecution 0 100 [stop 100 0x7057f 231 231, stop 100 0x0700 0 0]) =
   Inl (runtime_error ''Missing case for system call: exit_group this is a bug!'')"
proof -
  let ?s = "newExecution 0 100 [stop 100 0x7057f 231 231, stop 100 0x0700 0 0]"
  have c: "classifyStatus exitGroupPlatform 0x7057f = Inr seccomp"
    by (simp add: exitGroupPlatform_def status_defs)
  have g: "getNextEvent exitGroupPlatform (nextPid ?s) False ?s =
      Inr (seccomp, 0x7057f,
           ?s\<lparr>resumes := [Resume PTRACE_CONT 100 0 100], kernel := [stop 100 0x0700 0 0],
              lastStop := stop 100 0x7057f 231 231\<rparr>)"
    by (simp add: getNextEvent_def newExecution_def freshState_def Let_def
      doPtrace_def waitpid_def stop_def c)
  have b: "loopBody exitGroupPlatform False ?s =
      Inl (runtime_error ''Missing case for system call: exit_group this is a bug!'')"
    unfolding loopBody_def g
    by (simp add: Let_def handleSeccomp_def handlePreSystemCall_def updateState_def
        newExecution_def stop_def exit_group_name getSystemCall_def dispatch_231)
  have ne: "\<not> exitLoop ?s" by (simp add: newExecution_def)
  show ?thesis
    unfolding runProgram_def by (subst runLoop.simps) (simp add: b ne)
qed

subsection \<open>Facts about handlePreSystemCall at concrete syscall numbers\<close>

lemma atSyscall_sel:
  "tracerSyscallNumber (atSyscall n) = n" "states (atSyscall n) = [100 \<mapsto> freshState]"
  by (simp_all add: atSyscall_def newExecution_def)

lemma exampleNames_3: "exampleNames ! 3 = ''close''"
  by (simp add: exampleNames_def)

lemma dispatch_3: "map_of dispatchCases 3 = None"
  by (simp add: dispatchCases_def)

lemma to_string_3: "to_string 3 = ''3''"
  by (simp add: to_string_def)

lemma not_named: "\<not> sublist ''3'' ''Missing case for system call: close this is a bug!''"
  by (simp add: sublist_code prefix_code)

lemma handlePreSystemCall_missing_case:
  assumes "states s p = Some c" "tracerSyscallNumber s = n" "0 \<le> n"
    "n < int (length (systemCallMappings P))" "map_of dispatchCases n = None"
  shows "handlePreSystemCall P p s =
     Inl (runtime_error (''Missing case for system call: '' @ systemCallMappings P ! nat n
            @ '' this is a bug!''))"
  using assms by (simp add: handlePreSystemCall_def lookupName_def getSystemCall_def)

lemma close_example:
  "handlePreSystemCall examplePlatform 100 (atSyscall 3) =
     Inl (runtime_error ''Missing case for system call: close this is a bug!'')"
  using handlePreSystemCall_missing_case[of "atSyscall 3" 100 freshState 3 examplePlatform]
  by (simp add: atSyscall_def newExecution_def examplePlatform_def length_exampleNames
      exampleNames_3 dispatch_3)

subsection \<open>C8: the failure for a syscall the dispatcher does not know\<close>

text \<open>
  C8, as stated: for every syscall whose number falls outside the dispatcher's table the
  core raises a fatal failure whose message names the syscall number. Syscall 3
  (\<^verbatim>\<open>close\<close>) has no case in the dispatcher; the failure raised for it is
  \<^verbatim>\<open>Missing case for system call: close this is a bug!\<close>, in which the number 3 does
  not occur.
\<close>

theorem unknown_syscall_message_counterexample:
  "map_of dispatchCases 3 = None
   \<and> handlePreSystemCall examplePlatform 100 (atSyscall 3) =
       Inl (runtime_error ''Missing case for system call: close this is a bug!'')
   \<and> \<not> sublist (to_string 3) ''Missing case for system call: close this is a bug!''"
  by (simp add: dispatch_3 close_example to_string_3 not_named)

text \<open>
  C8, amended: for every syscall number that indexes the name table and has no case in
  the dispatcher, \<^verbatim>\<open>handlePreSystemCall\<close>, and with it \<^verbatim>\<open>handleSeccomp\<close> on the seccomp
  event of such a syscall, raises the fatal failure
  \<^verbatim>\<open>Missing case for system call: <name> this is a bug!\<close>: the message names the
  syscall by its name in the name table.
\<close>

theorem missing_case_names_the_syscall:
  assumes "0 \<le> n" "n < int (length (systemCallMappings P))" "map_of dispatchCases n = None"
  shows "(states s p = Some c \<and> tracerSyscallNumber s = n \<longrightarrow>
           handlePreSystemCall P p s =
             Inl (runtime_error (''Missing case for system call: ''
                    @ systemCallMappings P ! nat n @ '' this is a bug!'')))
       \<and> (states s (traceesPid s) = Some c \<and> k_sysno (lastStop s) = n
            \<and> k_msg (lastStop s) mod 65536 \<noteq> 32767 \<longrightarrow>
           handleSeccomp P s =
             Inl (runtime_error (''Missing case for system call: ''
                    @ systemCallMappings P ! nat n @ '' this is a bug!'')))"
proof (intro conjI impI)
  assume "states s p = Some c \<and> tracerSyscallNumber s = n"
  with assms show "handlePreSystemCall P p s =
             Inl (runtime_error (''Missing case for system call: ''
                    @ systemCallMappings P ! nat n @ '' this is a bug!''))"
    by (simp add: handlePreSystemCall_missing_case)
next
  assume a: "states s (traceesPid s) = Some c \<and> k_sysno (lastStop s) = n
            \<and> k_msg (lastStop s) mod 65536 \<noteq> 32767"
  then have "handleSeccomp P s = handlePreSystemCall P (traceesPid s) (updateState s)"
    by (simp add: handleSeccomp_def Let_def)
  also have "\<dots> = Inl (runtime_error (''Missing case for system call: ''
                    @ systemCallMappings P ! nat n @ '' this is a bug!''))"
    using a assms
    by (intro handlePreSystemCall_missing_case[where c = c]) (simp_all add: updateState_def)
  finally show "handleSeccomp P s =
             Inl (runtime_error (''Missing case for system call: ''
                    @ systemCallMappings P ! nat n @ '' this is a bug!''))" .
qed

theorem missing_case_names_the_syscall_witness:
  "(0::int) \<le> 3 \<and> (3::int) < int (length (systemCallMappings examplePlatform))
   \<and> map_of dispatchCases 3 = None
   \<and> states (atSyscall 3) 100 = Some freshState \<and> tracerSyscallNumber (atSyscall 3) = 3
   \<and> handlePreSystemCall examplePlatform 100 (atSyscall 3) =
       Inl (runtime_error ''Missing case for system call: close this is a bug!'')
   \<and> k_msg (lastStop ((atSyscall 0)\<lparr>lastStop := stop 100 0x7057f 3 3\<rparr>)) mod 65536 \<noteq> 32767
   \<and> handleSeccomp examplePlatform ((atSyscall 0)\<lparr>lastStop := stop 100 0x7057f 3 3\<rparr>) =
       Inl (runtime_error ''Missing case for system call: close this is a bug!'')"
proof -
  let ?s = "(atSyscall 0)\<lparr>lastStop := stop 100 0x7057f 3 3\<rparr>"
  have b: "(0::int) \<le> 3" "(3::int) < int (length (systemCallMappings examplePlatform))"
    by (simp_all add: examplePlatform_def length_exampleNames)
  note T = missing_case_names_the_syscall[OF b dispatch_3]
  have a: "states (atSyscall 3) 100 = Some freshState \<and> tracerSyscallNumber (atSyscall 3) = 3"
    by (simp add: atSyscall_sel)
  have c: "states ?s (traceesPid ?s) = Some freshState \<and> k_sysno (lastStop ?s) = 3
            \<and> k_msg (lastStop ?s) mod 65536 \<noteq> 32767"
    by (simp add: atSyscall_def newExecution_def stop_def)
  have n: "systemCallMappings examplePlatform ! nat 3 = ''close''"
    by (simp add: examplePlatform_def exampleNames_def)
  from T[THEN conjunct1, rule_format, OF a] T[THEN conjunct2, rule_format, OF c] a b c
    dispatch_3 n
  show ?thesis by simp
qed

subsection \<open>C3: the range check and the dispatcher\<close>

text \<open>
  The range check of \<^verbatim>\<open>handlePreSystemCall\<close> is its third statement: a
  \<^verbatim>\<open>runtime_error\<close> about an unknown number can only come from a number for which the
  name table and the dispatcher have already answered.
\<close>

lemma classifyStatus_error:
  "classifyStatus P st = Inl (runtime_error msg) \<Longrightarrow> take 2 msg \<noteq> ''Un''"
  by (auto simp: classifyStatus_def split: if_splits)

lemma getNextEvent_error:
  "getNextEvent P cur m s = Inl (runtime_error msg) \<Longrightarrow> take 2 msg \<noteq> ''Un''"
  by (auto simp: getNextEvent_def Let_def waitpid_def doPtrace_def
      dest: classifyStatus_error
      split: option.splits list.splits if_splits sum.splits)

lemma handleForkSignal_error:
  "handleForkSignal P s = Inl (runtime_error msg) \<Longrightarrow> take 2 msg \<noteq> ''Un''"
  by (auto simp: handleForkSignal_def Let_def waitpid_def split: list.splits if_splits)

lemma handleFork_error:
  "handleFork P e s = Inl (runtime_error msg) \<Longrightarrow> take 2 msg \<noteq> ''Un''"
  by (auto simp: handleFork_def handleForkEvent_def Let_def waitpid_def
      dest: handleForkSignal_error
      split: list.splits if_splits sum.splits)

lemma forkBranch_error:
  "forkBranch P p s = Inl (runtime_error msg) \<Longrightarrow> take 2 msg \<noteq> ''Un''"
  by (auto simp: forkBranch_def
      dest: getNextEvent_error handleFork_error
      split: if_splits sum.splits)

lemma afterRangeCheck_error:
  "afterRangeCheck P p s sc c = Inl (runtime_error msg) \<Longrightarrow> take 2 msg \<noteq> ''Un''"
  by (auto simp: afterRangeCheck_def Let_def
      dest: forkBranch_error
      split: if_splits sum.splits)

lemma range_error_only_from_guard:
  assumes "handlePreSystemCall P p s =
     Inl (runtime_error (''Unkown system call number: '' @ m))"
  shows "tracerSyscallNumber s < 0 \<or> tracerSyscallNumber s > SYSTEM_CALL_COUNT P"
proof (rule ccontr)
  assume n: "\<not> (tracerSyscallNumber s < 0 \<or> tracerSyscallNumber s > SYSTEM_CALL_COUNT P)"
  from assms obtain c0 where c0: "states s p = Some c0"
    by (cases "states s p") (simp_all add: handlePreSystemCall_def)
  from assms c0 obtain name where name:
    "lookupName (systemCallMappings P) (tracerSyscallNumber s) = Inr name"
    by (cases "lookupName (systemCallMappings P) (tracerSyscallNumber s)")
       (auto simp: handlePreSystemCall_def lookupName_def split: if_splits)
  from assms c0 name obtain sc where sc: "getSystemCall (tracerSyscallNumber s) name = Inr sc"
    by (cases "getSystemCall (tracerSyscallNumber s) name")
       (auto simp: handlePreSystemCall_def getSystemCall_def split: option.splits)
  from assms c0 name sc n have
    "afterRangeCheck P p s sc (c0\<lparr>systemcall := Some sc\<rparr>) =
       Inl (runtime_error (''Unkown system call number: '' @ m))"
    by (simp add: handlePreSystemCall_def)
  from afterRangeCheck_error[OF this] show False by simp
qed

lemma range_error_after_dispatch:
  assumes "handlePreSystemCall P p s =
     Inl (runtime_error (''Unkown system call number: '' @ m))"
  shows "map_of dispatchCases (tracerSyscallNumber s) \<noteq> None"
proof
  assume none: "map_of dispatchCases (tracerSyscallNumber s) = None"
  have "handlePreSystemCall P p s \<noteq> Inl (runtime_error (''Unkown system call number: '' @ m))"
    using none
    by (auto simp: handlePreSystemCall_def getSystemCall_def Let_def lookupName_def
        split: option.splits sum.splits)
  with assms show False by simp
qed

text \<open>
  C3. The claim: for every syscall number outside the valid range the pre-syscall handler
  fails before the dispatcher is asked and before any lookup keyed by that number. The
  code at such numbers: with the number -1, and with 62 where \<^verbatim>\<open>SYSTEM_CALL_COUNT\<close> is
  61, the name table is read out of its bounds before any check; with 3 where
  \<^verbatim>\<open>SYSTEM_CALL_COUNT\<close> is 2 and the table is longer, the dispatcher is asked and it is
  its failure that is raised, not the range check's.
\<close>

theorem range_check_follows_lookup_and_dispatch:
  "handlePreSystemCall examplePlatform 100 (atSyscall (-1)) =
     Inl (undefined_behaviour ''systemCallMappings read out of bounds'')
   \<and> handlePreSystemCall examplePlatform 100 (atSyscall 62) =
     Inl (undefined_behaviour ''systemCallMappings read out of bounds'')
   \<and> handlePreSystemCall (examplePlatform\<lparr>SYSTEM_CALL_COUNT := 2\<rparr>) 100 (atSyscall 3) =
     Inl (runtime_error ''Missing case for system call: close this is a bug!'')"
  by (simp add: handlePreSystemCall_def atSyscall_def newExecution_def examplePlatform_def
      lookupName_def length_exampleNames exampleNames_3 getSystemCall_def dispatch_3)

subsection \<open>C10: the boundary of the range check\<close>

lemma to_string_1: "to_string 1 = ''1''"
  by (simp add: to_string_def)

lemma dispatch_1: "map_of dispatchCases 1 = Some ''writeSystemCall''"
  by (simp add: dispatchCases_def)

lemma exampleNames_1: "exampleNames ! Suc 0 = ''write''"
  by (simp add: exampleNames_def)

lemma write_with_count_0:
  "handlePreSystemCall (examplePlatform\<lparr>SYSTEM_CALL_COUNT := 0\<rparr>) 100 (atSyscall 1) =
     Inl (runtime_error ''Unkown system call number: 1'')"
  by (simp add: handlePreSystemCall_def atSyscall_def newExecution_def examplePlatform_def
      lookupName_def length_exampleNames exampleNames_1 getSystemCall_def dispatch_1 to_string_1)

lemma write_with_count_1:
  "handlePreSystemCall (examplePlatform\<lparr>SYSTEM_CALL_COUNT := 1\<rparr>) 100 (atSyscall 1) =
     Inr (True, (atSyscall 1)\<lparr>states := [100 \<mapsto>
            \<lparr>signalToDeliver = 0, isPreExit = False,
             systemcall = Some \<lparr>handlerClass = ''writeSystemCall'', syscallNumber = 1,
                                syscallName = ''write''\<rparr>,
             logicalTime = 1\<rparr>]\<rparr>)"
  by (simp add: handlePreSystemCall_def afterRangeCheck_def atSyscall_def newExecution_def
      examplePlatform_def freshState_def
      lookupName_def length_exampleNames exampleNames_1 getSystemCall_def dispatch_1)

text \<open>
  C10. The unknown-number failure of \<^verbatim>\<open>handlePreSystemCall\<close> is raised only for a
  number below 0 or above \<^verbatim>\<open>SYSTEM_CALL_COUNT\<close>. The number equal to
  \<^verbatim>\<open>SYSTEM_CALL_COUNT\<close> is not stopped by the check: the name table is read at it, the
  dispatcher is called with it, and where both answer the handler goes on to the
  pre-hook.
\<close>

theorem range_guard_boundary:
  "(handlePreSystemCall P p s =
      Inl (runtime_error (''Unkown system call number: '' @ to_string (tracerSyscallNumber s)))
    \<longrightarrow> tracerSyscallNumber s < 0 \<or> tracerSyscallNumber s > SYSTEM_CALL_COUNT P)
   \<and> (states s p = Some c0 \<and> tracerSyscallNumber s = SYSTEM_CALL_COUNT P
      \<and> 0 \<le> SYSTEM_CALL_COUNT P
    \<longrightarrow> handlePreSystemCall P p s =
         (case lookupName (systemCallMappings P) (SYSTEM_CALL_COUNT P) of
            Inl e \<Rightarrow> Inl e
          | Inr name \<Rightarrow>
              (case getSystemCall (SYSTEM_CALL_COUNT P) name of
                 Inl e \<Rightarrow> Inl e
               | Inr sc \<Rightarrow> afterRangeCheck P p s sc (c0\<lparr>systemcall := Some sc\<rparr>))))"
proof (intro conjI impI)
  assume "handlePreSystemCall P p s =
      Inl (runtime_error (''Unkown system call number: '' @ to_string (tracerSyscallNumber s)))"
  then show "tracerSyscallNumber s < 0 \<or> tracerSyscallNumber s > SYSTEM_CALL_COUNT P"
    by (rule range_error_only_from_guard)
next
  assume "states s p = Some c0 \<and> tracerSyscallNumber s = SYSTEM_CALL_COUNT P
      \<and> 0 \<le> SYSTEM_CALL_COUNT P"
  then show "handlePreSystemCall P p s =
         (case lookupName (systemCallMappings P) (SYSTEM_CALL_COUNT P) of
            Inl e \<Rightarrow> Inl e
          | Inr name \<Rightarrow>
              (case getSystemCall (SYSTEM_CALL_COUNT P) name of
                 Inl e \<Rightarrow> Inl e
               | Inr sc \<Rightarrow> afterRangeCheck P p s sc (c0\<lparr>systemcall := Some sc\<rparr>)))"
    by (simp add: handlePreSystemCall_def Let_def split: sum.splits)
qed

theorem range_guard_boundary_witness:
  "handlePreSystemCall (examplePlatform\<lparr>SYSTEM_CALL_COUNT := 0\<rparr>) 100 (atSyscall 1) =
     Inl (runtime_error (''Unkown system call number: '' @ to_string 1))
   \<and> (1::int) > SYSTEM_CALL_COUNT (examplePlatform\<lparr>SYSTEM_CALL_COUNT := 0\<rparr>)
   \<and> states (atSyscall 61) 100 = Some freshState
   \<and> tracerSyscallNumber (atSyscall 61) = SYSTEM_CALL_COUNT examplePlatform
   \<and> handlePreSystemCall examplePlatform 100 (atSyscall 61) =
       Inl (undefined_behaviour ''systemCallMappings read out of bounds'')
   \<and> tracerSyscallNumber (atSyscall 1) = SYSTEM_CALL_COUNT (examplePlatform\<lparr>SYSTEM_CALL_COUNT := 1\<rparr>)
   \<and> handlePreSystemCall (examplePlatform\<lparr>SYSTEM_CALL_COUNT := 1\<rparr>) 100 (atSyscall 1) =
       Inr (True, (atSyscall 1)\<lparr>states := [100 \<mapsto>
            \<lparr>signalToDeliver = 0, isPreExit = False,
             systemcall = Some \<lparr>handlerClass = ''writeSystemCall'', syscallNumber = 1,
                                syscallName = ''write''\<rparr>,
             logicalTime = 1\<rparr>]\<rparr>)"
proof -
  have a: "handlePreSystemCall (examplePlatform\<lparr>SYSTEM_CALL_COUNT := 0\<rparr>) 100 (atSyscall 1) =
     Inl (runtime_error (''Unkown system call number: '' @ to_string (tracerSyscallNumber (atSyscall 1))))"
    by (simp add: write_with_count_0 to_string_1 atSyscall_sel)
  have b: "tracerSyscallNumber (atSyscall 1) < 0
      \<or> tracerSyscallNumber (atSyscall 1) > SYSTEM_CALL_COUNT (examplePlatform\<lparr>SYSTEM_CALL_COUNT := 0\<rparr>)"
    using range_guard_boundary[of "examplePlatform\<lparr>SYSTEM_CALL_COUNT := 0\<rparr>" 100 "atSyscall 1",
        THEN conjunct1] a by blast
  have c: "states (atSyscall 61) 100 = Some freshState
     \<and> tracerSyscallNumber (atSyscall 61) = SYSTEM_CALL_COUNT examplePlatform
     \<and> 0 \<le> SYSTEM_CALL_COUNT examplePlatform"
    by (simp add: atSyscall_sel examplePlatform_def)
  have d: "handlePreSystemCall examplePlatform 100 (atSyscall 61) =
       Inl (undefined_behaviour ''systemCallMappings read out of bounds'')"
    using range_guard_boundary[of examplePlatform 100 "atSyscall 61" freshState,
        THEN conjunct2] c
    by (simp add: lookupName_def examplePlatform_def length_exampleNames)
  from a b c d write_with_count_1 show ?thesis
    by (simp add: atSyscall_sel)
qed

subsection \<open>C6: the fork reconciler\<close>

text \<open>
  C6. \<^verbatim>\<open>handleFork\<close> resolves the race by the tag of the event it is given. On a fork
  or vfork tag it takes the child id from the event message, pushes the parent
  (\<^verbatim>\<open>traceesPid\<close>) on the ancestor stack, inserts a fresh State for the child (where the
  registry has none under that id), then waits for the child's stop, failing if the wait
  fails or answers for another pid. On any tag other than fork, vfork and signal-stop it
  fails. On a signal-stop tag it waits on any tracee, fails unless the stop reported is a
  fork or vfork event-stop, and then pushes the reporting tracee and creates the child's
  State in the same way. In both orders the child becomes \<^verbatim>\<open>nextPid\<close>.
\<close>

theorem fork_reconciler_by_first_tag:
  "((e = fork \<or> e = vfork) \<longrightarrow>
      handleFork P e s =
        (case kernel s of
           [] \<Rightarrow> Inl blocks_forever
         | k # ks \<Rightarrow>
             if k_pid k = -1 then Inl (runtime_error (''waitpid failed:'' @ k_errno k))
             else if k_pid k \<noteq> getEventMessage s
             then Inl (runtime_error ''wait call return pid does not match new child's pid.'')
             else Inr (s\<lparr>processHier := traceesPid s # processHier s,
                        states := (if states s (getEventMessage s) = None
                                   then (states s)(getEventMessage s \<mapsto> freshState)
                                   else states s),
                        kernel := ks, lastStop := k, nextPid := getEventMessage s\<rparr>)))
   \<and> (e \<noteq> fork \<and> e \<noteq> vfork \<and> e \<noteq> signal \<longrightarrow>
      handleFork P e s = Inl (runtime_error ''Expected signal after fork/vfork event!''))
   \<and> (e = signal \<longrightarrow>
      handleFork P e s =
        (case kernel s of
           [] \<Rightarrow> Inl blocks_forever
         | k # ks \<Rightarrow>
             if k_pid k = -1 then Inl (runtime_error (''waitpid failed:'' @ k_errno k))
             else if \<not> isPtraceEvent P (k_status k) PTRACE_EVENT_FORK
                     \<and> \<not> isPtraceEvent P (k_status k) PTRACE_EVENT_VFORK
             then Inl (runtime_error ''Expected fork or vfork event!\<newline>'')
             else Inr (s\<lparr>traceesPid := k_pid k,
                        processHier := k_pid k # processHier s,
                        states := (if states s (sint (word_of_nat (k_msg k) :: 32 word)) = None
                                   then (states s)(sint (word_of_nat (k_msg k) :: 32 word)
                                          \<mapsto> freshState)
                                   else states s),
                        kernel := ks, lastStop := k,
                        nextPid := sint (word_of_nat (k_msg k) :: 32 word)\<rparr>)))"
proof (intro conjI impI)
  assume "e = fork \<or> e = vfork"
  then show "handleFork P e s =
        (case kernel s of
           [] \<Rightarrow> Inl blocks_forever
         | k # ks \<Rightarrow>
             if k_pid k = -1 then Inl (runtime_error (''waitpid failed:'' @ k_errno k))
             else if k_pid k \<noteq> getEventMessage s
             then Inl (runtime_error ''wait call return pid does not match new child's pid.'')
             else Inr (s\<lparr>processHier := traceesPid s # processHier s,
                        states := (if states s (getEventMessage s) = None
                                   then (states s)(getEventMessage s \<mapsto> freshState)
                                   else states s),
                        kernel := ks, lastStop := k, nextPid := getEventMessage s\<rparr>))"
    by (cases "kernel s")
       (auto simp: handleFork_def handleForkEvent_def waitpid_def Let_def emplace_def
             split: option.splits)
next
  assume "e \<noteq> fork \<and> e \<noteq> vfork \<and> e \<noteq> signal"
  then show "handleFork P e s = Inl (runtime_error ''Expected signal after fork/vfork event!'')"
    by (simp add: handleFork_def)
next
  assume "e = signal"
  then show "handleFork P e s =
        (case kernel s of
           [] \<Rightarrow> Inl blocks_forever
         | k # ks \<Rightarrow>
             if k_pid k = -1 then Inl (runtime_error (''waitpid failed:'' @ k_errno k))
             else if \<not> isPtraceEvent P (k_status k) PTRACE_EVENT_FORK
                     \<and> \<not> isPtraceEvent P (k_status k) PTRACE_EVENT_VFORK
             then Inl (runtime_error ''Expected fork or vfork event!\<newline>'')
             else Inr (s\<lparr>traceesPid := k_pid k,
                        processHier := k_pid k # processHier s,
                        states := (if states s (sint (word_of_nat (k_msg k) :: 32 word)) = None
                                   then (states s)(sint (word_of_nat (k_msg k) :: 32 word)
                                          \<mapsto> freshState)
                                   else states s),
                        kernel := ks, lastStop := k,
                        nextPid := sint (word_of_nat (k_msg k) :: 32 word)\<rparr>))"
    by (cases "kernel s")
       (auto simp: handleFork_def handleForkSignal_def handleForkEvent_def waitpid_def Let_def
             emplace_def getEventMessage_def
             split: option.splits)
qed

lemma fork_event_status:
  "isPtraceEvent_ptrace2 0x1057f PTRACE_EVENT_FORK"
  by (simp add: isPtraceEvent_ptrace2_def)

theorem fork_reconciler_by_first_tag_witness:
  "handleFork examplePlatform fork afterForkEvent = Inr (forked (stop 101 0x137f 0 0))
   \<and> handleFork examplePlatform exec afterForkEvent =
       Inl (runtime_error ''Expected signal after fork/vfork event!'')
   \<and> handleFork examplePlatform signal afterChildStop = Inr (forked (stop 100 0x1057f 101 56))"
proof -
  note T = fork_reconciler_by_first_tag[where e = fork and s = afterForkEvent and P = examplePlatform]
  note U = fork_reconciler_by_first_tag[where e = exec and s = afterForkEvent and P = examplePlatform]
  note V = fork_reconciler_by_first_tag[where e = signal and s = afterChildStop and P = examplePlatform]
  have a: "handleFork examplePlatform fork afterForkEvent = Inr (forked (stop 101 0x137f 0 0))"
    using T[THEN conjunct1]
    by (simp add: afterForkEvent_def newExecution_def stop_def getEventMessage_def forked_def
        fun_upd_twist)
  have b: "handleFork examplePlatform exec afterForkEvent =
       Inl (runtime_error ''Expected signal after fork/vfork event!'')"
    using U[THEN conjunct2, THEN conjunct1] by simp
  have c: "handleFork examplePlatform signal afterChildStop = Inr (forked (stop 100 0x1057f 101 56))"
    using V[THEN conjunct2, THEN conjunct2] fork_event_status
    by (simp add: afterChildStop_def newExecution_def stop_def forked_def examplePlatform_def
        fun_upd_twist)
  from a b c show ?thesis by simp
qed

subsection \<open>The resumes a run performs\<close>

text \<open>
  Every resume is issued by \<^verbatim>\<open>getNextEvent\<close>. The loop calls it with
  \<^verbatim>\<open>currentPid = nextPid\<close>; the fork branch of \<^verbatim>\<open>handlePreSystemCall\<close> calls it with
  \<^verbatim>\<open>traceesPid\<close>, which is \<^verbatim>\<open>nextPid\<close> at the first call and may differ at the second
  call of an old kernel, when the pending signal of \<^verbatim>\<open>nextPid\<close> has just been cleared.
\<close>

lemma withState_sel [simp]:
  "nextPid (withState p f s) = nextPid s"
  "traceesPid (withState p f s) = traceesPid s"
  "resumes (withState p f s) = resumes s"
  "processHier (withState p f s) = processHier s"
  "states (withState p f s) q = (if q = p then map_option f (states s p) else states s q)"
  by (auto simp: withState_def split: option.splits)

lemma forkBranch_Inr:
  assumes "forkBranch P p s = Inr (b, s')"
  shows "\<exists>s2 e st s3.
           (if oldKernel P
            then (\<exists>e1 st1 s1. getNextEvent P (traceesPid s) True s = Inr (e1, st1, s1)
                    \<and> s2 = withState p (\<lambda>c. c\<lparr>isPreExit := False\<rparr>) s1)
            else s2 = s)
           \<and> getNextEvent P (traceesPid s2) False s2 = Inr (e, st, s3)
           \<and> handleFork P e s3 = Inr s' \<and> \<not> b"
proof (cases "oldKernel P")
  case True
  from assms True obtain e1 st1 s1 where
    g1: "getNextEvent P (traceesPid s) True s = Inr (e1, st1, s1)"
    by (cases "getNextEvent P (traceesPid s) True s") (auto simp: forkBranch_def)
  let ?s2 = "withState p (\<lambda>c. c\<lparr>isPreExit := False\<rparr>) s1"
  from assms True g1 obtain e st s3 where
    g2: "getNextEvent P (traceesPid ?s2) False ?s2 = Inr (e, st, s3)"
    by (cases "getNextEvent P (traceesPid ?s2) False ?s2") (auto simp: forkBranch_def)
  from assms True g1 g2 have "handleFork P e s3 = Inr s' \<and> \<not> b"
    by (cases "handleFork P e s3") (auto simp: forkBranch_def)
  with True g1 g2 show ?thesis by auto
next
  case False
  from assms False obtain e st s3 where
    g2: "getNextEvent P (traceesPid s) False s = Inr (e, st, s3)"
    by (cases "getNextEvent P (traceesPid s) False s") (auto simp: forkBranch_def)
  from assms False g2 have "handleFork P e s3 = Inr s' \<and> \<not> b"
    by (cases "handleFork P e s3") (auto simp: forkBranch_def)
  with False g2 show ?thesis by auto
qed

lemma getNextEvent_resumes:
  assumes "getNextEvent P cur m s = Inr (ev, st, s')"
  shows "\<exists>c. states s (nextPid s) = Some c
           \<and> resumes s' = resumes s @ [Resume (if m then PTRACE_SYSCALL else PTRACE_CONT) cur
                                          (signalToDeliver c) (nextPid s)]
           \<and> states s' = (states s)(nextPid s \<mapsto> c\<lparr>signalToDeliver := 0\<rparr>)
           \<and> nextPid s' = nextPid s"
  using getNextEvent_Inr[OF assms] by auto

lemma handleFork_resumes:
  "handleFork P e s = Inr s' \<Longrightarrow> resumes s' = resumes s"
  by (drule handleFork_Inr) auto

lemma forkBranch_resumes:
  assumes "forkBranch P p s = Inr (b, s')" "nextPid s = traceesPid s"
  shows "\<exists>more. resumes s' = resumes s @ more \<and> (\<forall>a\<in>set more. ownSignal a)"
proof -
  from forkBranch_Inr[OF assms(1)] obtain s2 e st s3 where
    pre: "if oldKernel P
          then (\<exists>e1 st1 s1. getNextEvent P (traceesPid s) True s = Inr (e1, st1, s1)
                    \<and> s2 = withState p (\<lambda>c. c\<lparr>isPreExit := False\<rparr>) s1)
          else s2 = s"
    and g2: "getNextEvent P (traceesPid s2) False s2 = Inr (e, st, s3)"
    and hf: "handleFork P e s3 = Inr s'"
    by blast
  from getNextEvent_resumes[OF g2] obtain c2 where
    c2: "states s2 (nextPid s2) = Some c2"
    and r3: "resumes s3 = resumes s2 @ [Resume PTRACE_CONT (traceesPid s2)
                                          (signalToDeliver c2) (nextPid s2)]"
    by auto
  have r': "resumes s' = resumes s3" using hf by (rule handleFork_resumes)
  show ?thesis
  proof (cases "oldKernel P")
    case False
    with pre have "s2 = s" by simp
    with r3 r' assms(2) show ?thesis by (simp add: ownSignal_def)
  next
    case True
    with pre obtain e1 st1 s1 where
      g1: "getNextEvent P (traceesPid s) True s = Inr (e1, st1, s1)"
      and s2: "s2 = withState p (\<lambda>c. c\<lparr>isPreExit := False\<rparr>) s1"
      by auto
    from getNextEvent_resumes[OF g1] obtain c1 where
      r1: "resumes s1 = resumes s @ [Resume PTRACE_SYSCALL (traceesPid s)
                                          (signalToDeliver c1) (nextPid s)]"
      and st1: "states s1 = (states s)(nextPid s \<mapsto> c1\<lparr>signalToDeliver := 0\<rparr>)"
      and n1: "nextPid s1 = nextPid s"
      by auto
    from c2 s2 st1 n1 have "signalToDeliver c2 = 0"
      by (auto split: if_splits)
    with r3 r' r1 s2 assms(2) show ?thesis by (simp add: ownSignal_def)
  qed
qed

lemma afterRangeCheck_resumes:
  assumes "afterRangeCheck P p s sc c = Inr (b, s')" "nextPid s = traceesPid s"
  shows "\<exists>more. resumes s' = resumes s @ more \<and> (\<forall>a\<in>set more. ownSignal a)"
proof -
  from assms(1) obtain cph c1 where h: "handleDetPre P sc c = Inr (cph, c1)"
    by (cases "handleDetPre P sc c") (auto simp: afterRangeCheck_def)
  let ?s1 = "s\<lparr>states := (states s)(p \<mapsto> (if oldKernel P then c1\<lparr>isPreExit := True\<rparr> else c1))\<rparr>"
  show ?thesis
  proof (cases "syscallName sc = ''fork'' \<or> syscallName sc = ''vfork'' \<or> syscallName sc = ''clone''")
    case True
    with assms(1) h have "forkBranch P p ?s1 = Inr (b, s')"
      by (simp add: afterRangeCheck_def Let_def)
    from forkBranch_resumes[OF this] assms(2) show ?thesis by simp
  next
    case False
    with assms(1) h have "s' = ?s1"
      by (auto simp: afterRangeCheck_def Let_def)
    then show ?thesis by simp
  qed
qed

lemma handlePreSystemCall_resumes:
  assumes "handlePreSystemCall P p s = Inr (b, s')" "nextPid s = traceesPid s"
  shows "\<exists>more. resumes s' = resumes s @ more \<and> (\<forall>a\<in>set more. ownSignal a)"
proof -
  from assms(1) obtain sc c where "afterRangeCheck P p s sc c = Inr (b, s')"
    by (auto simp: handlePreSystemCall_def Let_def split: option.splits sum.splits if_splits)
  from afterRangeCheck_resumes[OF this assms(2)] show ?thesis .
qed

lemma handleSeccomp_resumes:
  assumes "handleSeccomp P s = Inr (b, s')" "nextPid s = traceesPid s"
  shows "\<exists>more. resumes s' = resumes s @ more \<and> (\<forall>a\<in>set more. ownSignal a)"
proof -
  from assms(1) have "handlePreSystemCall P (traceesPid s) (updateState s) = Inr (b, s')"
    by (auto simp: handleSeccomp_def Let_def split: sum.splits if_splits)
  from handlePreSystemCall_resumes[OF this] assms(2) show ?thesis
    by (simp add: updateState_def)
qed

lemma handlePostSystemCall_resumes:
  "handlePostSystemCall P p s = Inr s' \<Longrightarrow> resumes s' = resumes s"
  by (auto simp: handlePostSystemCall_def split: option.splits sum.splits)

lemma handleSignal_resumes:
  "handleSignal n s = Inr s' \<Longrightarrow> resumes s' = resumes s"
  by (auto simp: handleSignal_def split: option.splits)

lemma handleExit_resumes [simp]: "resumes (handleExit s) = resumes s"
  by (simp add: handleExit_def)

lemma loopBody_resumes:
  assumes "loopBody P cph s = Inr (b, s')"
  shows "\<exists>c more. states s (nextPid s) = Some c
     \<and> resumes s' = resumes s @ Resume (if cph then PTRACE_SYSCALL else PTRACE_CONT)
                                  (nextPid s) (signalToDeliver c) (nextPid s) # more
     \<and> (\<forall>a\<in>set more. ownSignal a)"
proof -
  from assms obtain ev st s1 where g: "getNextEvent P (nextPid s) cph s = Inr (ev, st, s1)"
    by (cases "getNextEvent P (nextPid s) cph s") (auto simp: loopBody_def)
  from getNextEvent_resumes[OF g] obtain c where
    c: "states s (nextPid s) = Some c"
    and r1: "resumes s1 = resumes s @ [Resume (if cph then PTRACE_SYSCALL else PTRACE_CONT)
                                  (nextPid s) (signalToDeliver c) (nextPid s)]"
    by auto
  let ?s2 = "s1\<lparr>nextPid := traceesPid s1\<rparr>"
  have "\<exists>more. resumes s' = resumes ?s2 @ more \<and> (\<forall>a\<in>set more. ownSignal a)"
  proof (cases "ev = seccomp")
    case True
    with assms g have "handleSeccomp P ?s2 = Inr (b, s')"
      by (simp add: loopBody_def Let_def)
    from handleSeccomp_resumes[OF this] show ?thesis by simp
  next
    case False
    with assms g have "resumes s' = resumes ?s2"
      by (cases ev)
         (auto simp: loopBody_def Let_def handleClone_def handleExecve_def updateState_def
           dest!: handlePostSystemCall_resumes handleSignal_resumes
           split: if_splits option.splits sum.splits)
    then show ?thesis by simp
  qed
  with c r1 show ?thesis by auto
qed


lemma handleFork_states:
  assumes "handleFork P e s = Inr s'"
  shows "states s' = (if states s (nextPid s') = None
                      then (states s)(nextPid s' \<mapsto> freshState) else states s)"
proof -
  from handleFork_Inr[OF assms] obtain c where
    "nextPid s' = c" "states s' = emplace (states s) c freshState"
    by (elim exE conjE disjE) simp_all
  then show ?thesis
    by (simp add: emplace_def split: option.splits)
qed

lemma handleFork_child:
  assumes "handleFork P e s = Inr s'"
  shows "(e = fork \<or> e = vfork \<or> e = signal) \<and> nextPid s' = forkEventChild e s"
proof -
  from handleFork_Inr[OF assms] show ?thesis
    by (elim exE conjE disjE) (simp_all add: forkEventChild_def)
qed

lemma seccomp_fork_syscall:
  assumes g: "getNextEvent P (nextPid s) cph s = Inr (seccomp, st, s2)"
    and name: "lookupName (systemCallMappings P) (k_sysno (lastStop s2)) = Inr name"
    and forks: "name = ''fork'' \<or> name = ''vfork'' \<or> name = ''clone''"
    and body: "loopBody P cph s = Inr (b, s1)"
  shows "\<exists>p s0. forkBranch P p s0 = Inr (b, s1)"
proof -
  let ?s3 = "s2\<lparr>nextPid := traceesPid s2\<rparr>"
  from g body have hs: "handleSeccomp P ?s3 = Inr (b, s1)"
    by (simp add: loopBody_def Let_def)
  then have hp: "handlePreSystemCall P (traceesPid s2) (updateState ?s3) = Inr (b, s1)"
    by (auto simp: handleSeccomp_def Let_def split: sum.splits if_splits)
  have n: "tracerSyscallNumber (updateState ?s3) = k_sysno (lastStop s2)"
    by (simp add: updateState_def)
  from hp obtain c0 where c0: "states (updateState ?s3) (traceesPid s2) = Some c0"
    by (cases "states (updateState ?s3) (traceesPid s2)")
       (simp_all add: handlePreSystemCall_def)
  from hp c0 n name obtain sc where
    sc: "getSystemCall (k_sysno (lastStop s2)) name = Inr sc"
    by (cases "getSystemCall (k_sysno (lastStop s2)) name")
       (simp_all add: handlePreSystemCall_def Let_def)
  then have nm: "syscallName sc = name"
    by (auto simp: getSystemCall_def split: option.splits)
  from hp c0 n name sc have
    arc: "afterRangeCheck P (traceesPid s2) (updateState ?s3) sc (c0\<lparr>systemcall := Some sc\<rparr>)
            = Inr (b, s1)"
    by (simp add: handlePreSystemCall_def Let_def split: if_splits)
  then obtain cp c1 where "handleDetPre P sc (c0\<lparr>systemcall := Some sc\<rparr>) = Inr (cp, c1)"
    by (cases "handleDetPre P sc (c0\<lparr>systemcall := Some sc\<rparr>)")
       (auto simp: afterRangeCheck_def)
  with arc nm forks show ?thesis
    by (auto simp: afterRangeCheck_def Let_def)
qed

subsection \<open>Concrete runs of the fork reconciler\<close>

lemma handleFork_fork_first:
  "handleFork examplePlatform fork afterForkEvent = Inr (forked (stop 101 0x137f 0 0))"
  by (simp add: handleFork_def handleForkEvent_def waitpid_def Let_def emplace_def
      afterForkEvent_def newExecution_def stop_def getEventMessage_def forked_def fun_upd_twist)

lemma handleFork_signal_first:
  "handleFork examplePlatform signal afterChildStop = Inr (forked (stop 100 0x1057f 101 56))"
  by (simp add: handleFork_def handleForkSignal_def handleForkEvent_def waitpid_def Let_def
      emplace_def afterChildStop_def newExecution_def stop_def getEventMessage_def forked_def
      fun_upd_twist examplePlatform_def isPtraceEvent_ptrace2_def)

lemma loopBody_forked:
  "loopBody examplePlatform False (forked k) = Inr (False, childExited)"
  by (simp add: loopBody_def getNextEvent_def forked_def freshState_def Let_def
      doPtrace_def waitpid_def stop_def exit_status_classified handleExit_def childExited_def
      fun_upd_twist)

lemma exampleNames_56: "exampleNames ! 56 = ''clone''"
  by (simp add: exampleNames_def)

lemma dispatch_56: "map_of dispatchCases 56 = Some ''cloneSystemCall''"
  by (simp add: dispatchCases_def)

lemma getNextEvent_forkFirstRun:
  "getNextEvent examplePlatform 100 False forkFirstRun =
     Inr (seccomp, 0x7057f,
          forkFirstRun\<lparr>resumes := [Resume PTRACE_CONT 100 0 100],
            kernel := [stop 100 0x1057f 101 56, stop 101 0x137f 0 0, stop 101 0 0 0],
            lastStop := stop 100 0x7057f 56 56\<rparr>)"
  by (simp add: getNextEvent_def forkFirstRun_def newExecution_def freshState_def Let_def
      doPtrace_def waitpid_def stop_def classify_examples)

lemma loopBody_forkFirstRun:
  "loopBody examplePlatform False forkFirstRun = Inr (False, cloned)"
proof -
  let ?s2 = "forkFirstRun\<lparr>resumes := [Resume PTRACE_CONT 100 0 100],
            kernel := [stop 100 0x1057f 101 56, stop 101 0x137f 0 0, stop 101 0 0 0],
            lastStop := stop 100 0x7057f 56 56, nextPid := 100\<rparr>"
  have g: "getNextEvent examplePlatform (nextPid forkFirstRun) False forkFirstRun =
     Inr (seccomp, 0x7057f,
          forkFirstRun\<lparr>resumes := [Resume PTRACE_CONT 100 0 100],
            kernel := [stop 100 0x1057f 101 56, stop 101 0x137f 0 0, stop 101 0 0 0],
            lastStop := stop 100 0x7057f 56 56\<rparr>)"
    using getNextEvent_forkFirstRun by (simp add: forkFirstRun_def newExecution_def)
  have a: "loopBody examplePlatform False forkFirstRun = handleSeccomp examplePlatform ?s2"
    unfolding loopBody_def g
    by (simp add: forkFirstRun_def newExecution_def Let_def)
  have b: "handleSeccomp examplePlatform ?s2 =
      forkBranch examplePlatform 100
        (?s2\<lparr>tracerSyscallNumber := 56,
             states := [100 \<mapsto> \<lparr>signalToDeliver = 0, isPreExit = False,
                           systemcall = Some \<lparr>handlerClass = ''cloneSystemCall'',
                                              syscallNumber = 56, syscallName = ''clone''\<rparr>,
                           logicalTime = 1\<rparr>]\<rparr>)"
    by (simp add: handleSeccomp_def handlePreSystemCall_def afterRangeCheck_def Let_def
        updateState_def forkFirstRun_def newExecution_def stop_def lookupName_def
        getSystemCall_def dispatch_56 freshState_def examplePlatform_def length_exampleNames
        exampleNames_56)
  have c: "forkBranch examplePlatform 100
        (?s2\<lparr>tracerSyscallNumber := 56,
             states := [100 \<mapsto> \<lparr>signalToDeliver = 0, isPreExit = False,
                           systemcall = Some \<lparr>handlerClass = ''cloneSystemCall'',
                                              syscallNumber = 56, syscallName = ''clone''\<rparr>,
                           logicalTime = 1\<rparr>]\<rparr>) = Inr (False, cloned)"
    by (simp add: forkBranch_def getNextEvent_def handleFork_def handleForkEvent_def
        waitpid_def doPtrace_def Let_def emplace_def getEventMessage_def
        forkFirstRun_def newExecution_def stop_def classify_examples cloned_def
        fun_upd_twist examplePlatform_def[THEN arg_cong, of oldKernel, simplified])
  from a b c show ?thesis by simp
qed

subsection \<open>C9: the fork reconciler records no signal\<close>

text \<open>
  C9. No branch of \<^verbatim>\<open>handleFork\<close>, \<^verbatim>\<open>handleForkEvent\<close> or \<^verbatim>\<open>handleForkSignal\<close>
  writes a \<^verbatim>\<open>signalToDeliver\<close>: \<^verbatim>\<open>handleForkSignal\<close> leaves the registry as it is,
  \<^verbatim>\<open>handleForkEvent\<close> and \<^verbatim>\<open>handleFork\<close> leave every registered State as it is and
  add at most the child's, which is then the fresh State with no pending signal. So the
  signal-stop seen during the reconciliation is not injected: the resume that follows, of
  the newly registered child, injects signal 0.
\<close>

theorem fork_reconciler_records_no_signal:
  "(handleForkSignal P s = Inr s1 \<longrightarrow> states s1 = states s)
   \<and> (\<forall>p c. states s p = Some c \<longrightarrow> states (snd (handleForkEvent s)) p = Some c)
   \<and> (handleFork P e s = Inr s' \<longrightarrow>
        (\<forall>p c. states s p = Some c \<longrightarrow> states s' p = Some c)
        \<and> (\<forall>p. states s p = None \<longrightarrow>
               states s' p = (if p = nextPid s' then Some freshState else None))
        \<and> (states s (nextPid s') = None \<longrightarrow>
             (\<forall>cph b s''. loopBody P cph s' = Inr (b, s'') \<longrightarrow>
                (\<exists>more. resumes s'' =
                   resumes s' @ Resume (if cph then PTRACE_SYSCALL else PTRACE_CONT)
                                  (nextPid s') 0 (nextPid s') # more))))
   \<and> signalToDeliver freshState = 0"
proof (intro conjI impI allI)
  assume "handleForkSignal P s = Inr s1"
  from handleForkSignal_Inr[OF this] show "states s1 = states s" by auto
next
  fix p c assume "states s p = Some c"
  then show "states (snd (handleForkEvent s)) p = Some c"
    by (auto simp: handleForkEvent_def Let_def emplace_def split: option.splits)
next
  fix p c assume hf: "handleFork P e s = Inr s'" and "states s p = Some c"
  then show "states s' p = Some c"
    using handleFork_states[OF hf] by (auto split: if_splits)
next
  fix p assume hf: "handleFork P e s = Inr s'" and "states s p = None"
  then show "states s' p = (if p = nextPid s' then Some freshState else None)"
    using handleFork_states[OF hf] by (auto split: if_splits)
next
  fix cph b s''
  assume hf: "handleFork P e s = Inr s'" and fresh: "states s (nextPid s') = None"
    and body: "loopBody P cph s' = Inr (b, s'')"
  from fresh have "states s' (nextPid s') = Some freshState"
    using handleFork_states[OF hf] by simp
  with loopBody_resumes[OF body]
  show "\<exists>more. resumes s'' =
                   resumes s' @ Resume (if cph then PTRACE_SYSCALL else PTRACE_CONT)
                                  (nextPid s') 0 (nextPid s') # more"
    by (auto simp: freshState_def)
next
  show "signalToDeliver freshState = 0" by (simp add: freshState_def)
qed

theorem fork_reconciler_records_no_signal_witness:
  "handleFork examplePlatform signal afterChildStop = Inr (forked (stop 100 0x1057f 101 56))
   \<and> states afterChildStop 100 = Some freshState
   \<and> states (forked (stop 100 0x1057f 101 56)) 100 = Some freshState
   \<and> states afterChildStop 101 = None
   \<and> states (forked (stop 100 0x1057f 101 56)) 101 = Some freshState
   \<and> loopBody examplePlatform False (forked (stop 100 0x1057f 101 56)) =
       Inr (False, childExited)
   \<and> resumes (childExited) = [Resume PTRACE_CONT 101 0 101]"
proof -
  let ?k = "stop 100 0x1057f 101 56"
  note T = fork_reconciler_records_no_signal[where P = examplePlatform and e = signal
      and s = afterChildStop and s' = "forked ?k", THEN conjunct2, THEN conjunct2,
      THEN conjunct1, rule_format, OF handleFork_signal_first]
  have n: "nextPid (forked ?k) = 101" by (simp add: forked_def)
  have a: "states afterChildStop 100 = Some freshState" "states afterChildStop 101 = None"
    by (simp_all add: afterChildStop_def newExecution_def)
  from T[THEN conjunct1, rule_format, OF a(1)]
  have b: "states (forked ?k) 100 = Some freshState" .
  from T[THEN conjunct2, THEN conjunct1, rule_format, OF a(2)] n
  have c: "states (forked ?k) 101 = Some freshState" by simp
  from a(2) n have "states afterChildStop (nextPid (forked ?k)) = None" by simp
  from T[THEN conjunct2, THEN conjunct2, rule_format, OF this loopBody_forked]
  obtain more where "resumes (childExited) =
      resumes (forked ?k) @ Resume PTRACE_CONT 101 0 101 # more"
    using n by auto
  then have d: "resumes (childExited) = [Resume PTRACE_CONT 101 0 101]"
    by (simp add: childExited_def)
  from handleFork_signal_first a b c d loopBody_forked show ?thesis by simp
qed

subsection \<open>C4: the child runs first\<close>

text \<open>
  C4. After every fork, vfork or clone that the reconciler handles, whichever of the two
  race events it was given, \<^verbatim>\<open>nextPid\<close> is the id of the new child as the fork
  event-stop reported it, the child is registered, and the next iteration of the
  supervisor loop starts by resuming the child. In the loop: the iteration that handles
  the seccomp stop of a syscall named fork, vfork or clone ends with
  \<^verbatim>\<open>callPostHook = false\<close> in the state \<^verbatim>\<open>handleFork\<close> returned.
\<close>

theorem child_is_next_resume_target:
  "(handleFork P e s = Inr s' \<longrightarrow>
       (e = fork \<or> e = vfork \<or> e = signal)
       \<and> nextPid s' = forkEventChild e s
       \<and> (\<exists>c. states s' (nextPid s') = Some c)
       \<and> (\<forall>cph b s''. loopBody P cph s' = Inr (b, s'') \<longrightarrow>
            (\<exists>sig more. resumes s'' =
               resumes s' @ Resume (if cph then PTRACE_SYSCALL else PTRACE_CONT)
                              (forkEventChild e s) sig (forkEventChild e s) # more)))
   \<and> (getNextEvent P (nextPid t) cph0 t = Inr (seccomp, st, t2)
       \<and> lookupName (systemCallMappings P) (k_sysno (lastStop t2)) = Inr name
       \<and> (name = ''fork'' \<or> name = ''vfork'' \<or> name = ''clone'')
       \<and> loopBody P cph0 t = Inr (b0, t1) \<longrightarrow>
         \<not> b0 \<and> (\<exists>e0 s0. handleFork P e0 s0 = Inr t1 \<and> nextPid t1 = forkEventChild e0 s0))"
proof (intro conjI impI allI)
  assume hf: "handleFork P e s = Inr s'"
  from handleFork_child[OF hf]
  show "e = fork \<or> e = vfork \<or> e = signal" and ch: "nextPid s' = forkEventChild e s"
    by simp_all
  show "\<exists>c. states s' (nextPid s') = Some c"
    using handleFork_states[OF hf] by (cases "states s (nextPid s')") auto
  fix cph b s''
  assume "loopBody P cph s' = Inr (b, s'')"
  from loopBody_resumes[OF this] ch
  show "\<exists>sig more. resumes s'' =
               resumes s' @ Resume (if cph then PTRACE_SYSCALL else PTRACE_CONT)
                              (forkEventChild e s) sig (forkEventChild e s) # more"
    by auto
next
  assume a: "getNextEvent P (nextPid t) cph0 t = Inr (seccomp, st, t2)
       \<and> lookupName (systemCallMappings P) (k_sysno (lastStop t2)) = Inr name
       \<and> (name = ''fork'' \<or> name = ''vfork'' \<or> name = ''clone'')
       \<and> loopBody P cph0 t = Inr (b0, t1)"
  then obtain p s0 where fb: "forkBranch P p s0 = Inr (b0, t1)"
    using seccomp_fork_syscall[of P t cph0 st t2 name b0 t1] by blast
  from forkBranch_Inr[OF fb] obtain e0 s3 where hf: "handleFork P e0 s3 = Inr t1" and nb: "\<not> b0"
    by blast
  from nb show "\<not> b0" .
  from hf handleFork_child[OF hf]
  show "\<exists>e0 s0. handleFork P e0 s0 = Inr t1 \<and> nextPid t1 = forkEventChild e0 s0"
    by blast
qed

theorem child_is_next_resume_target_witness:
  "handleFork examplePlatform fork afterForkEvent = Inr (forked (stop 101 0x137f 0 0))
   \<and> forkEventChild fork afterForkEvent = 101
   \<and> nextPid (forked (stop 101 0x137f 0 0)) = 101
   \<and> handleFork examplePlatform signal afterChildStop = Inr (forked (stop 100 0x1057f 101 56))
   \<and> forkEventChild signal afterChildStop = 101
   \<and> nextPid (forked (stop 100 0x1057f 101 56)) = 101
   \<and> loopBody examplePlatform False (forked (stop 101 0x137f 0 0)) = Inr (False, childExited)
   \<and> resumes childExited =
       resumes (forked (stop 101 0x137f 0 0)) @ [Resume PTRACE_CONT 101 0 101]
   \<and> loopBody examplePlatform False forkFirstRun = Inr (False, cloned)
   \<and> nextPid cloned = 101"
proof -
  let ?k1 = "stop 101 0x137f 0 0" and ?k2 = "stop 100 0x1057f 101 56"
  note T1 = child_is_next_resume_target[where P = examplePlatform and e = fork
      and s = afterForkEvent and s' = "forked ?k1", THEN conjunct1, rule_format,
      OF handleFork_fork_first]
  note T2 = child_is_next_resume_target[where P = examplePlatform and e = signal
      and s = afterChildStop and s' = "forked ?k2", THEN conjunct1, rule_format,
      OF handleFork_signal_first]
  have c1: "forkEventChild fork afterForkEvent = 101"
    by (simp add: forkEventChild_def afterForkEvent_def getEventMessage_def stop_def)
  have c2: "forkEventChild signal afterChildStop = 101"
    by (simp add: forkEventChild_def afterChildStop_def newExecution_def stop_def)
  from T1 c1 have n1: "nextPid (forked ?k1) = 101" by simp
  from T2 c2 have n2: "nextPid (forked ?k2) = 101" by simp
  have r: "resumes childExited = resumes (forked ?k1) @ [Resume PTRACE_CONT 101 0 101]"
    by (simp add: childExited_def forked_def)
  have name: "lookupName (systemCallMappings examplePlatform)
      (k_sysno (lastStop (forkFirstRun\<lparr>resumes := [Resume PTRACE_CONT 100 0 100],
            kernel := [stop 100 0x1057f 101 56, stop 101 0x137f 0 0, stop 101 0 0 0],
            lastStop := stop 100 0x7057f 56 56\<rparr>))) = Inr ''clone''"
    by (simp add: lookupName_def examplePlatform_def length_exampleNames exampleNames_56 stop_def)
  have np: "nextPid forkFirstRun = 100" by (simp add: forkFirstRun_def newExecution_def)
  from child_is_next_resume_target[where P = examplePlatform and t = forkFirstRun
      and ?cph0.0 = False and ?b0.0 = False and ?t1.0 = cloned and name = "''clone''"
      and st = "0x7057f"
      and ?t2.0 = "forkFirstRun\<lparr>resumes := [Resume PTRACE_CONT 100 0 100],
            kernel := [stop 100 0x1057f 101 56, stop 101 0x137f 0 0, stop 101 0 0 0],
            lastStop := stop 100 0x7057f 56 56\<rparr>", THEN conjunct2]
    getNextEvent_forkFirstRun name loopBody_forkFirstRun np
  obtain e0 s0 where "handleFork examplePlatform e0 s0 = Inr cloned"
    "nextPid cloned = forkEventChild e0 s0"
    by auto
  have n3: "nextPid cloned = 101" by (simp add: cloned_def)
  from handleFork_fork_first handleFork_signal_first c1 c2 n1 n2 loopBody_forked r
    loopBody_forkFirstRun n3
  show ?thesis by simp
qed

subsection \<open>C5: a signal is deferred to the next resume of its tracee\<close>





















end
